theory Spec2Isabelle
  imports Main "HOL-Library.Word" "HOL-Library.Multiset"
begin

section \<open>The scst_local loopback driver (scst_local/scst_local.c)\<close>

text \<open>
  The driver is modelled for the newest kernel branch of each of its
  \<^verbatim>\<open>#if LINUX_VERSION_CODE\<close> alternatives (5.16 and later). Objects that the C code
  reaches through pointers live in explicit stores: a session pointer and a target pointer
  are addresses (\<open>nat\<close>) into the stores \<open>sessions\<close> and \<open>tgts\<close> of the driver state.
  Calls into the SCST engine and into the kernel are recorded, in order, in the trace
  \<open>calls\<close>; what such a call returns is an argument of the modelled function. Locks that
  only block (the spin lock \<open>aen_lock\<close>, the mutexes) are not part of the state. A
  function that gives up \<open>aen_lock\<close> before it is done is modelled in the parts between
  which the lock is free, and as a whole by their composition; a run of the callbacks
  interleaves whole calls and such parts of calls in any order.
\<close>

subsection \<open>Constants of the kernel and SCST headers\<close>

text \<open>
  The numeric values of these macros are declared in header files, not in scst_local.c.
  They are taken as a parameter \<open>K\<close> of every function that uses one; \<open>linux_hdr\<close> holds
  the values of the Linux and SCST headers and is used for concrete runs only.
\<close>

record hdr =
  ENOENT :: int
  ENOMEM :: int
  EFAULT :: int
  EINVAL :: int
  SUCCESS :: int
  DID_BAD_TARGET :: int
  SCSI_MLQUEUE_HOST_BUSY :: int
  SCST_AEN_SCSI :: int
  SCST_AEN_RES_NOT_SUPPORTED :: int

definition linux_hdr :: hdr where
  "linux_hdr = \<lparr> ENOENT = 2, ENOMEM = 12, EFAULT = 14, EINVAL = 22, SUCCESS = 0x2002,
     DID_BAD_TARGET = 0x04, SCSI_MLQUEUE_HOST_BUSY = 0x1055, SCST_AEN_SCSI = 0,
     SCST_AEN_RES_NOT_SUPPORTED = - 1 \<rparr>"

subsection \<open>Data model\<close>

text \<open>\<open>struct scst_aen\<close>: the engine's notification; \<open>aen_sess\<close> is the driver session that
  \<open>scst_sess_get_tgt_priv(scst_aen_get_sess(aen))\<close> yields.\<close>

record scst_aen =
  aen_id :: nat
  aen_sess :: nat
  event_fn :: int

record scst_aen_work_item =
  aen :: scst_aen

text \<open>\<open>struct Scsi_Host\<close>, as far as the driver looks at it: \<open>shost_del\<close> says that
  \<open>scsi_host_get\<close> returns NULL for this host.\<close>

record Scsi_Host =
  host_no :: nat
  shost_del :: bool

text \<open>\<open>struct scst_local_tgt\<close>; \<open>tgt_name\<close> is \<open>scst_tgt->tgt_name\<close>.\<close>

record scst_local_tgt =
  tgt_name :: string
  sessions_list :: "nat list"
  scsi_transport_version :: "16 word"
  phys_transport_version :: "16 word"

text \<open>\<open>struct scst_local_sess\<close>; \<open>initiator_name\<close> is \<open>scst_sess->initiator_name\<close>, and the
  two \<open>work_struct\<close> fields hold their pending bit.\<close>

record scst_local_sess =
  initiator_name :: string
  unregistering :: bool
  shost :: "Scsi_Host option"
  tgt :: nat
  number :: "32 word"
  aen_work :: bool
  aen_work_list :: "scst_aen_work_item list"
  remove_work :: bool

datatype scst_mgmt_fn = SCST_ABORT_TASK | SCST_LUN_RESET | SCST_TARGET_RESET

datatype scst_cmd_queue_type = SCST_CMD_QUEUE_UNTAGGED | SCST_CMD_QUEUE_SIMPLE

datatype scst_data_direction = SCST_DATA_WRITE | SCST_DATA_READ | SCST_DATA_NONE

datatype dma_data_direction = DMA_BIDIRECTIONAL | DMA_TO_DEVICE | DMA_FROM_DEVICE | DMA_NONE

text \<open>\<open>struct scsi_cmnd\<close> with the fields of its device and request that the driver reads:
  \<open>cmd_sess\<close> is \<open>to_scst_lcl_sess(scsi_get_device(scmd->device->host))\<close>, \<open>lun\<close> is
  \<open>scmd->device->lun\<close>, \<open>unique_tag\<close> is \<open>blk_mq_unique_tag(scsi_cmd_to_rq(scmd))\<close>.\<close>

record scsi_cmnd =
  cmd_sess :: nat
  lun :: "64 word"
  unique_tag :: "32 word"
  cmnd :: "8 word list"
  sc_data_direction :: dma_data_direction
  bidi_cmnd :: bool
  bufflen :: nat
  sg_count :: nat
  tagged_supported :: bool
  simple_tags :: bool
  result :: int
  resid :: int

text \<open>The engine's command object, as the setters of scst_local_queuecommand fill it.\<close>

record scst_cmd =
  cmd_tag :: "32 word"
  queue_type :: scst_cmd_queue_type
  expected :: "(scst_data_direction \<times> nat) option"
  noio_mem_alloc :: bool
  tgt_sg :: "nat option"
  tgt_priv :: "scsi_cmnd option"

text \<open>The recorded calls. \<open>Scst_rx_cmd\<close> and the two \<open>Scst_rx_mgmt_fn\<close> calls carry the
  session and the device LUN (the byte encoding that \<open>int_to_scsilun\<close> computes is left
  opaque); \<open>BUG\<close> is the kernel assertion failure of \<open>sBUG_ON\<close>, and
  \<open>Null_shost_use\<close> is a call that is handed the address of a member of \<open>*sess->shost\<close>
  while \<open>sess->shost\<close> is NULL (\<open>sysfs_create_link\<close> and \<open>scsi_scan_target\<close> in
  \<open>__scst_local_add_adapter\<close>).\<close>

datatype call =
    Scsi_scan_target nat
  | Scst_aen_done scst_aen
  | BUG
  | Queue_work nat
  | Schedule_work nat
  | Cancel_work_sync nat
  | Device_unregister nat
  | Scsi_remove_host "Scsi_Host option"
  | Scst_unregister_session nat
  | Scst_unregister_target nat
  | Scst_rx_cmd nat "64 word" "8 word list"
  | Scst_cmd_init_done scst_cmd
  | Scsi_done scsi_cmnd
  | Scst_rx_mgmt_fn_tag nat scst_mgmt_fn "32 word"
  | Scst_rx_mgmt_fn_lun nat scst_mgmt_fn "64 word"
  | Wait_for_completion_interruptible
  | Destroy_workqueue
  | Driver_unregister
  | Bus_unregister
  | Root_device_unregister
  | Scst_unregister_target_template
  | Null_shost_use

text \<open>\<open>struct rw_semaphore\<close>: the writer bit and the number of readers.\<close>

record rw_semaphore =
  writer :: bool
  readers :: nat

text \<open>The local variables of an iteration of the loop of \<open>scst_process_aens\<close> that has
  left the critical section (after \<open>spin_unlock\<close>) and has not yet delivered its item:
  \<open>sess\<close>, \<open>cleanup_only\<close>, \<open>work_item\<close> and \<open>shost\<close>.\<close>

record aen_frame =
  fr_sess :: nat
  fr_cleanup_only :: bool
  fr_work_item :: scst_aen_work_item
  fr_shost :: "Scsi_Host option"

text \<open>The driver's global state: the file-scope variables of scst_local.c, the two object
  stores and the trace; and of the calls in progress, the iterations of the AEN loop that
  are outside the critical section (\<open>taken\<close>) and the sessions of the reports that have
  put their item on the list and have not yet called \<open>queue_work\<close> (\<open>queue_work_due\<close>).\<close>

record scst_local =
  scst_local_exit_rwsem :: rw_semaphore
  scst_local_tgts_list :: "nat list"
  scst_local_sess_num :: "32 word"
  num_aborts :: "32 word"
  num_dev_resets :: "32 word"
  num_target_resets :: "32 word"
  tgts :: "nat \<Rightarrow> scst_local_tgt"
  sessions :: "nat \<Rightarrow> scst_local_sess"
  calls :: "call list"
  taken :: "aen_frame list"
  queue_work_due :: "nat list"

definition emit :: "call list \<Rightarrow> scst_local \<Rightarrow> scst_local" where
  "emit cs w = w\<lparr>calls := calls w @ cs\<rparr>"

subsection \<open>Version descriptors\<close>

definition scst_local_get_scsi_transport_version :: "scst_local_tgt \<Rightarrow> 16 word" where
  "scst_local_get_scsi_transport_version t =
     (if scsi_transport_version t = 0 then 0x0BE0 else scsi_transport_version t)"

definition scst_local_get_phys_transport_version :: "scst_local_tgt \<Rightarrow> 16 word" where
  "scst_local_get_phys_transport_version t = phys_transport_version t"

subsection \<open>Task management\<close>

text \<open>\<open>rx_ret\<close> is what the engine's \<open>scst_rx_mgmt_fn_tag\<close> / \<open>scst_rx_mgmt_fn_lun\<close> returns.
  The wait is entered on every path; its own return value is dropped by the C code.\<close>

definition scst_local_abort :: "hdr \<Rightarrow> int \<Rightarrow> scsi_cmnd \<Rightarrow> scst_local \<Rightarrow> int \<times> scst_local" where
  "scst_local_abort K rx_ret scmd w =
     (let sess = cmd_sess scmd;
          w1 = emit [Scst_rx_mgmt_fn_tag sess SCST_ABORT_TASK (unique_tag scmd)] w;
          w2 = emit [Wait_for_completion_interruptible] w1;
          w3 = w2\<lparr>num_aborts := num_aborts w2 + 1\<rparr>
      in (if rx_ret = 0 then SUCCESS K else rx_ret, w3))"

definition scst_local_device_reset :: "hdr \<Rightarrow> int \<Rightarrow> scsi_cmnd \<Rightarrow> scst_local \<Rightarrow> int \<times> scst_local" where
  "scst_local_device_reset K rx_ret scmd w =
     (let sess = cmd_sess scmd;
          w1 = emit [Scst_rx_mgmt_fn_lun sess SCST_LUN_RESET (lun scmd)] w;
          w2 = emit [Wait_for_completion_interruptible] w1;
          w3 = w2\<lparr>num_dev_resets := num_dev_resets w2 + 1\<rparr>
      in (if rx_ret = 0 then SUCCESS K else rx_ret, w3))"

definition scst_local_target_reset :: "hdr \<Rightarrow> int \<Rightarrow> scsi_cmnd \<Rightarrow> scst_local \<Rightarrow> int \<times> scst_local" where
  "scst_local_target_reset K rx_ret scmd w =
     (let sess = cmd_sess scmd;
          w1 = emit [Scst_rx_mgmt_fn_lun sess SCST_TARGET_RESET (lun scmd)] w;
          w2 = emit [Wait_for_completion_interruptible] w1;
          w3 = w2\<lparr>num_target_resets := num_target_resets w2 + 1\<rparr>
      in (if rx_ret = 0 then SUCCESS K else rx_ret, w3))"

definition upd_sess :: "nat \<Rightarrow> (scst_local_sess \<Rightarrow> scst_local_sess) \<Rightarrow> scst_local \<Rightarrow> scst_local" where
  "upd_sess p f w = w\<lparr>sessions := (sessions w)(p := f (sessions w p))\<rparr>"

definition upd_tgt :: "nat \<Rightarrow> (scst_local_tgt \<Rightarrow> scst_local_tgt) \<Rightarrow> scst_local \<Rightarrow> scst_local" where
  "upd_tgt p f w = w\<lparr>tgts := (tgts w)(p := f (tgts w p))\<rparr>"

text \<open>\<open>strcmp\<close> and \<open>strcasecmp\<close>, up to the sign of a non-zero result (the driver only tests
  the result against zero). \<open>tolower\<close> is the C locale's.\<close>

definition tolower :: "char \<Rightarrow> char" where
  "tolower c = (let n = (of_char c :: nat) in if 65 \<le> n \<and> n \<le> 90 then char_of (n + 32) else c)"

definition strcmp :: "string \<Rightarrow> string \<Rightarrow> int" where
  "strcmp a b = (if a = b then 0 else 1)"

definition strcasecmp :: "string \<Rightarrow> string \<Rightarrow> int" where
  "strcasecmp a b = (if map tolower a = map tolower b then 0 else 1)"

subsection \<open>The exit barrier\<close>

text \<open>\<open>down_read_trylock\<close> returns 0 when a writer holds the semaphore. \<open>down_write\<close> waits
  for the semaphore to be free; in a run without interleaving a semaphore that is not free
  stays so, which is the result \<open>None\<close>.\<close>

definition down_read_trylock :: "rw_semaphore \<Rightarrow> int \<times> rw_semaphore" where
  "down_read_trylock sem = (if writer sem then (0, sem) else (1, sem\<lparr>readers := readers sem + 1\<rparr>))"

definition up_read :: "rw_semaphore \<Rightarrow> rw_semaphore" where
  "up_read sem = sem\<lparr>readers := readers sem - 1\<rparr>"



definition exit_rwsem_up_read :: "scst_local \<Rightarrow> scst_local" where
  "exit_rwsem_up_read w = w\<lparr>scst_local_exit_rwsem := up_read (scst_local_exit_rwsem w)\<rparr>"

subsection \<open>Command submission\<close>

text \<open>\<open>rx\<close> is the command object that the engine's \<open>scst_rx_cmd\<close> returns (\<open>None\<close> for NULL).
  The function returns its result and the command as the driver leaves it.\<close>

definition scst_local_queuecommand ::
  "hdr \<Rightarrow> scst_cmd option \<Rightarrow> scsi_cmnd \<Rightarrow> scst_local \<Rightarrow> int \<times> scsi_cmnd \<times> scst_local" where
  "scst_local_queuecommand K rx scmd0 w =
     (let sess = cmd_sess scmd0 in
      if unregistering (sessions w sess) then
        (let scmd = scmd0\<lparr>result := push_bit 16 (DID_BAD_TARGET K)\<rparr>
         in (0, scmd, emit [Scsi_done scmd] w))
      else
        (let scmd = scmd0\<lparr>resid := 0\<rparr>;
             w1 = emit [Scst_rx_cmd sess (lun scmd) (cmnd scmd)] w
         in case rx of
              None \<Rightarrow> (SCSI_MLQUEUE_HOST_BUSY K, scmd, w1)
            | Some c0 \<Rightarrow>
               (let c1 = c0\<lparr>cmd_tag := unique_tag scmd\<rparr>;
                    c2 = (if tagged_supported scmd \<and> simple_tags scmd
                          then c1\<lparr>queue_type := SCST_CMD_QUEUE_SIMPLE\<rparr>
                          else c1\<lparr>queue_type := SCST_CMD_QUEUE_UNTAGGED\<rparr>);
                    sgl_count = sg_count scmd;
                    c3 = (if bidi_cmnd scmd then c2
                          else if sc_data_direction scmd = DMA_TO_DEVICE then
                            c2\<lparr>expected := Some (SCST_DATA_WRITE, bufflen scmd),
                               noio_mem_alloc := True, tgt_sg := Some sgl_count\<rparr>
                          else if sc_data_direction scmd = DMA_FROM_DEVICE then
                            c2\<lparr>expected := Some (SCST_DATA_READ, bufflen scmd),
                               noio_mem_alloc := True, tgt_sg := Some sgl_count\<rparr>
                          else c2\<lparr>expected := Some (SCST_DATA_NONE, 0)\<rparr>);
                    c4 = c3\<lparr>tgt_priv := Some scmd\<rparr>
                in (0, scmd, emit [Scst_cmd_init_done c4] w1))))"

subsection \<open>AEN delivery\<close>

text \<open>One iteration of the loop of \<open>scst_process_aens\<close>, for the first work item of the
  list and the rest of the list, in its two parts. \<open>aen_take\<close> is the part inside the
  critical section: it unlinks the item, reads \<open>sess->shost\<close> and takes a reference on the
  host; its result is the local \<open>shost\<close>. \<open>aen_deliver\<close> is the part after \<open>spin_unlock\<close>: it
  works on the local \<open>shost\<close>, and its result says whether the loop goes on (\<open>sBUG_ON\<close> ends
  the calling thread, and the item it fired on has left the list and is not
  acknowledged).\<close>

definition aen_take ::
  "nat \<Rightarrow> scst_aen_work_item list \<Rightarrow> scst_local \<Rightarrow> Scsi_Host option \<times> scst_local" where
  "aen_take sess rest w =
     (let w1 = upd_sess sess (\<lambda>s. s\<lparr>aen_work_list := rest\<rparr>) w;
          host = (case shost (sessions w1 sess) of
                    None \<Rightarrow> None
                  | Some h \<Rightarrow> if shost_del h then None else Some h)
      in (host, w1))"

definition aen_deliver ::
  "hdr \<Rightarrow> bool \<Rightarrow> scst_aen_work_item \<Rightarrow> Scsi_Host option \<Rightarrow> scst_local \<Rightarrow> bool \<times> scst_local" where
  "aen_deliver K cleanup_only work_item host w1 =
     (if \<not> cleanup_only \<and> event_fn (aen work_item) \<noteq> SCST_AEN_SCSI K
      then (False, emit [BUG] w1)
      else
        (let w2 = (if cleanup_only then w1
                   else case host of
                          None \<Rightarrow> w1
                        | Some h \<Rightarrow> emit [Scsi_scan_target (host_no h)] w1);
             w3 = emit [Scst_aen_done (aen work_item)] w2
         in (True, w3)))"

definition aen_iteration ::
  "hdr \<Rightarrow> nat \<Rightarrow> bool \<Rightarrow> scst_aen_work_item \<Rightarrow> scst_aen_work_item list \<Rightarrow> scst_local
     \<Rightarrow> bool \<times> scst_local" where
  "aen_iteration K sess cleanup_only work_item rest w =
     (case aen_take sess rest w of
        (host, w1) \<Rightarrow> aen_deliver K cleanup_only work_item host w1)"

text \<open>The loop itself: it runs while the list is not empty.\<close>

function scst_process_aens :: "hdr \<Rightarrow> nat \<Rightarrow> bool \<Rightarrow> scst_local \<Rightarrow> scst_local" where
  "scst_process_aens K sess cleanup_only w =
     (case aen_work_list (sessions w sess) of
        [] \<Rightarrow> w
      | work_item # rest \<Rightarrow>
          (case aen_iteration K sess cleanup_only work_item rest w of
             (go_on, w') \<Rightarrow> if go_on then scst_process_aens K sess cleanup_only w' else w'))"
  by pat_completeness auto
termination
  by (relation "measure (\<lambda>(K, sess, cleanup_only, w). length (aen_work_list (sessions w sess)))")
     (auto simp: aen_iteration_def aen_take_def aen_deliver_def Let_def emit_def upd_sess_def
        split: if_splits option.splits)

declare scst_process_aens.simps [simp del]

definition scst_aen_work_fn :: "hdr \<Rightarrow> nat \<Rightarrow> scst_local \<Rightarrow> scst_local" where
  "scst_aen_work_fn K sess w = scst_process_aens K sess False w"

text \<open>\<open>scst_local_report_aen\<close> in its two parts. \<open>report_aen_locked\<close> runs up to the
  \<open>spin_unlock\<close>; its result is the value the function returns at once, or \<open>None\<close> when the
  item is on the list and \<open>queue_work\<close> is still to be called. \<open>report_aen_queue_work\<close> is
  that call, made after the lock is given up. \<open>kzalloc_ok\<close> says whether the allocation of
  the work item succeeds.\<close>

definition report_aen_locked ::
  "hdr \<Rightarrow> bool \<Rightarrow> scst_aen \<Rightarrow> scst_local \<Rightarrow> int option \<times> scst_local" where
  "report_aen_locked K kzalloc_ok a w =
     (let sess = aen_sess a in
      if event_fn a = SCST_AEN_SCSI K then
        (if \<not> kzalloc_ok then (Some (- ENOMEM K), w)
         else if unregistering (sessions w sess) then (Some (SCST_AEN_RES_NOT_SUPPORTED K), w)
         else (None, upd_sess sess (\<lambda>s. s\<lparr>aen_work_list := aen_work_list s @ [\<lparr>aen = a\<rparr>]\<rparr>) w))
      else (Some (SCST_AEN_RES_NOT_SUPPORTED K), w))"

definition report_aen_queue_work :: "nat \<Rightarrow> scst_local \<Rightarrow> scst_local" where
  "report_aen_queue_work sess w =
     emit [Queue_work sess] (upd_sess sess (\<lambda>s. s\<lparr>aen_work := True\<rparr>) w)"

definition scst_local_report_aen :: "hdr \<Rightarrow> bool \<Rightarrow> scst_aen \<Rightarrow> scst_local \<Rightarrow> int \<times> scst_local" where
  "scst_local_report_aen K kzalloc_ok a w =
     (case report_aen_locked K kzalloc_ok a w of
        (Some res, w1) \<Rightarrow> (res, w1)
      | (None, w1) \<Rightarrow> (0, report_aen_queue_work (aen_sess a) w1))"

subsection \<open>Session teardown\<close>

text \<open>\<open>list_del\<close> unlinks the session from the list of its target; \<open>device_unregister\<close> is
  recorded as a call (the kernel invokes \<open>scst_local_driver_remove\<close> and
  \<open>scst_local_release_adapter\<close> from it or later).\<close>

definition scst_local_remove_adapter :: "nat \<Rightarrow> scst_local \<Rightarrow> scst_local" where
  "scst_local_remove_adapter sess w =
     (let w1 = upd_tgt (tgt (sessions w sess))
                 (\<lambda>t. t\<lparr>sessions_list := remove1 sess (sessions_list t)\<rparr>) w
      in emit [Device_unregister sess] w1)"

definition scst_remove_work_fn :: "nat \<Rightarrow> scst_local \<Rightarrow> scst_local" where
  "scst_remove_work_fn sess w = scst_local_remove_adapter sess w"

definition scst_local_close_session_impl :: "nat \<Rightarrow> bool \<Rightarrow> scst_local \<Rightarrow> scst_local" where
  "scst_local_close_session_impl sess async w =
     (let unreg = unregistering (sessions w sess);
          w1 = upd_sess sess (\<lambda>s. s\<lparr>unregistering := True\<rparr>) w
      in if \<not> unreg then
           (if async then emit [Schedule_work sess] (upd_sess sess (\<lambda>s. s\<lparr>remove_work := True\<rparr>) w1)
            else scst_local_remove_adapter sess w1)
         else w1)"

definition scst_local_close_session :: "nat \<Rightarrow> scst_local \<Rightarrow> int \<times> scst_local" where
  "scst_local_close_session sess w = (0, scst_local_close_session_impl sess True w)"

definition scst_local_driver_remove :: "nat \<Rightarrow> scst_local \<Rightarrow> scst_local" where
  "scst_local_driver_remove sess w =
     (let h = shost (sessions w sess);
          w1 = upd_sess sess (\<lambda>s. s\<lparr>shost := None\<rparr>) w
      in emit [Scsi_remove_host h] w1)"

text \<open>\<open>scst_local_release_adapter\<close>: \<open>cancel_work_sync\<close> (the pending bit of the AEN work
  is cleared), the cleanup-only loop, and \<open>scst_unregister_session\<close>. \<open>WARN_ON_ONCE\<close> only
  prints; it is left out.\<close>

definition release_adapter_cancel :: "nat \<Rightarrow> scst_local \<Rightarrow> scst_local" where
  "release_adapter_cancel sess w =
     emit [Cancel_work_sync sess] (upd_sess sess (\<lambda>s. s\<lparr>aen_work := False\<rparr>) w)"

definition release_adapter_unregister :: "nat \<Rightarrow> scst_local \<Rightarrow> scst_local" where
  "release_adapter_unregister sess w = emit [Scst_unregister_session sess] w"

definition scst_local_release_adapter :: "hdr \<Rightarrow> nat \<Rightarrow> scst_local \<Rightarrow> scst_local" where
  "scst_local_release_adapter K sess w =
     (let w1 = release_adapter_cancel sess w;
          w2 = scst_process_aens K sess True w1
      in release_adapter_unregister sess w2)"

subsection \<open>Targets and sessions\<close>

text \<open>What the kernel and the engine answer during \<open>__scst_local_add_adapter\<close>: the address
  of the allocated session (\<open>None\<close> when \<open>kzalloc\<close> fails), whether \<open>scst_register_session\<close>
  returns a session, the result of \<open>device_register\<close>, the value of \<open>sess->shost\<close> when
  \<open>device_register\<close> has returned 0 (the host that \<open>scst_local_driver_probe\<close> stored there,
  also when its \<open>scsi_add_host\<close> failed, or \<open>None\<close>, for NULL, when its \<open>scsi_host_alloc\<close>
  failed: the driver core does not pass a failure of the probe on), the result of \<open>sysfs_create_link\<close>, and
  \<open>scst_initiator_has_luns\<close>. The function does not test \<open>sess->shost\<close>: with NULL there it
  goes on as with a host, and what it hands to \<open>sysfs_create_link\<close> and to
  \<open>scsi_scan_target\<close> is recorded as \<open>Null_shost_use\<close>.\<close>

record adapter_env =
  sess_kzalloc :: "nat option"
  register_session_ok :: bool
  device_register_res :: int
  probed_shost :: "Scsi_Host option"
  sysfs_create_link_res :: int
  initiator_has_luns :: bool

text \<open>For \<open>scst_local_add_target\<close>: the address of the allocated target and whether
  \<open>scst_register_target\<close> returns a target.\<close>

record target_env =
  tgt_kzalloc :: "nat option"
  register_target_ok :: bool

text \<open>The C names \<open>__scst_local_add_adapter\<close> and \<open>__scst_local_remove_target\<close> are written
  with the prefix \<open>uu_\<close>. A freed object keeps its last contents in the store.\<close>

definition uu_scst_local_add_adapter ::
  "hdr \<Rightarrow> adapter_env \<Rightarrow> nat \<Rightarrow> string \<Rightarrow> bool \<Rightarrow> scst_local \<Rightarrow> int \<times> scst_local" where
  "uu_scst_local_add_adapter K env tgtp initiator locked w =
     (case sess_kzalloc env of
        None \<Rightarrow> (- ENOMEM K, w)
      | Some sess \<Rightarrow>
         (let n = scst_local_sess_num w + 1;
              w1 = (upd_sess sess (\<lambda>_. \<lparr>initiator_name = [], unregistering = False, shost = None,
                      tgt = tgtp, number = n, aen_work = False, aen_work_list = [],
                      remove_work = False\<rparr>) w)\<lparr>scst_local_sess_num := n\<rparr>
          in if \<not> register_session_ok env then (- EFAULT K, w1)
             else
              (let w2 = upd_sess sess (\<lambda>s. s\<lparr>initiator_name := initiator\<rparr>) w1
               in if device_register_res env \<noteq> 0 then
                    (device_register_res env, emit [Scst_unregister_session sess] w2)
                  else
                   (let w2' = upd_sess sess (\<lambda>s. s\<lparr>shost := probed_shost env\<rparr>) w2;
                        w3 = (case shost (sessions w2' sess) of
                                None \<Rightarrow> emit [Null_shost_use] w2'
                              | Some h \<Rightarrow> w2')
                    in if sysfs_create_link_res env \<noteq> 0 then
                         (sysfs_create_link_res env, emit [Device_unregister sess] w3)
                       else
                        (let w4 = upd_tgt tgtp (\<lambda>t. t\<lparr>sessions_list := sessions_list t @ [sess]\<rparr>) w3;
                             w5 = (if initiator_has_luns env
                                   then (case shost (sessions w4 sess) of
                                           None \<Rightarrow> emit [Null_shost_use] w4
                                         | Some h \<Rightarrow> emit [Scsi_scan_target (host_no h)] w4)
                                   else w4)
                         in (0, w5))))))"



text \<open>\<open>list_for_each_entry_safe\<close> visits the sessions that are on the list when the loop
  starts: the body unlinks at most the entry it is called on.\<close>

definition uu_scst_local_remove_target :: "nat \<Rightarrow> scst_local \<Rightarrow> scst_local" where
  "uu_scst_local_remove_target tgtp w =
     (let w1 = foldl (\<lambda>v sess. scst_local_close_session_impl sess False v) w
                 (sessions_list (tgts w tgtp));
          w2 = w1\<lparr>scst_local_tgts_list := remove1 tgtp (scst_local_tgts_list w1)\<rparr>
      in emit [Scst_unregister_target tgtp] w2)"


subsection \<open>The administrative operations\<close>




text \<open>The three lexemes that \<open>scst_get_next_lexem\<close> cuts from the buffer of the mgmt command
  are the arguments \<open>command\<close>, \<open>target_name\<close> and \<open>session_name\<close> (empty where the buffer
  has no further lexeme).\<close>

definition scst_local_sysfs_mgmt_cmd ::
  "hdr \<Rightarrow> adapter_env \<Rightarrow> string \<Rightarrow> string \<Rightarrow> string \<Rightarrow> scst_local \<Rightarrow> int \<times> scst_local" where
  "scst_local_sysfs_mgmt_cmd K env command target_name session_name w =
     (case down_read_trylock (scst_local_exit_rwsem w) of
        (got, sem) \<Rightarrow>
          if got = 0 then (- ENOENT K, w)
          else
            (let w0 = w\<lparr>scst_local_exit_rwsem := sem\<rparr>
             in if target_name = [] then (- EINVAL K, exit_rwsem_up_read w0)
                else
                  (case find (\<lambda>t. strcmp (tgt_name (tgts w0 t)) target_name = 0)
                          (scst_local_tgts_list w0) of
                     None \<Rightarrow> (- EINVAL K, exit_rwsem_up_read w0)
                   | Some tgtp \<Rightarrow>
                       if session_name = [] then (- EINVAL K, exit_rwsem_up_read w0)
                       else if strcasecmp ''add_session'' command = 0 then
                         (case uu_scst_local_add_adapter K env tgtp session_name True w0 of
                            (res, w1) \<Rightarrow> (res, exit_rwsem_up_read w1))
                       else if strcasecmp ''del_session'' command = 0 then
                         (case find (\<lambda>s. strcmp (initiator_name (sessions w0 s)) session_name = 0)
                                 (sessions_list (tgts w0 tgtp)) of
                            None \<Rightarrow> (- EINVAL K, exit_rwsem_up_read w0)
                          | Some sess \<Rightarrow>
                              (0, exit_rwsem_up_read (scst_local_close_session_impl sess False w0)))
                       else (0, exit_rwsem_up_read w0))))"

subsection \<open>Module exit\<close>



subsection \<open>The target template\<close>





subsection \<open>Runs of the session callbacks\<close>

text \<open>The events that reach a session from outside, each a call of one function of the
  driver: the engine reports an AEN (with the outcome of the allocation) or closes the
  session; a work queue runs \<open>aen_work\<close> or \<open>remove_work\<close> if it is pending (the pending bit
  is cleared before the work function runs); an administrative path closes the session
  synchronously; the driver core calls the bus's remove callback or the device's release
  callback. \<open>Run_aen_iteration\<close> is one whole iteration of a worker's pass. Each of these
  steps is a whole call, with nothing between its parts.

  The other steps are the parts of these calls between which \<open>aen_lock\<close> is free, so that
  anything can come between them. \<open>Report_locked\<close> is a report up to its \<open>spin_unlock\<close>; if
  it has put its item on the list its \<open>queue_work\<close> is due, and \<open>Report_queue_work\<close> is
  that call. \<open>Start_aen_work\<close> is the workqueue taking up the pending AEN work, whose
  pass is then made of iterations. \<open>Aen_take\<close> is the critical section of one iteration of
  a loop of \<open>scst_process_aens\<close>, of a worker's pass or of the cleanup-only drain; it
  leaves a frame with the local variables, and \<open>Aen_deliver n\<close> is the rest of the
  iteration of the \<open>n\<close>-th frame; a loop ends when it finds the list empty, where
  \<open>Aen_take\<close> does nothing. \<open>Release_cancel\<close> and \<open>Release_unregister\<close> are what
  \<open>scst_local_release_adapter\<close> does before and after its loop. A part can be taken
  whenever the state allows it, which is more often than the program does (an iteration of
  a loop, say, with no worker started): what holds of every run of these steps holds of
  every execution of the callbacks.\<close>

datatype op =
    Report_aen bool scst_aen
  | Run_aen_work nat
  | Run_aen_iteration nat
  | Close_session nat
  | Close_session_sync nat
  | Run_remove_work nat
  | Driver_remove nat
  | Release_adapter nat
  | Report_locked bool scst_aen
  | Report_queue_work nat
  | Start_aen_work nat
  | Aen_take nat bool
  | Aen_deliver nat
  | Release_cancel nat
  | Release_unregister nat

fun step :: "hdr \<Rightarrow> op \<Rightarrow> scst_local \<Rightarrow> scst_local" where
  "step K (Report_aen kzalloc_ok a) w = snd (scst_local_report_aen K kzalloc_ok a w)"
| "step K (Run_aen_work p) w =
     (if aen_work (sessions w p)
      then scst_aen_work_fn K p (upd_sess p (\<lambda>s. s\<lparr>aen_work := False\<rparr>) w) else w)"
| "step K (Run_aen_iteration p) w =
     (case aen_work_list (sessions w p) of
        [] \<Rightarrow> w
      | work_item # rest \<Rightarrow> snd (aen_iteration K p False work_item rest w))"
| "step K (Close_session p) w = snd (scst_local_close_session p w)"
| "step K (Close_session_sync p) w = scst_local_close_session_impl p False w"
| "step K (Run_remove_work p) w =
     (if remove_work (sessions w p)
      then scst_remove_work_fn p (upd_sess p (\<lambda>s. s\<lparr>remove_work := False\<rparr>) w) else w)"
| "step K (Driver_remove p) w = scst_local_driver_remove p w"
| "step K (Release_adapter p) w = scst_local_release_adapter K p w"
| "step K (Report_locked kzalloc_ok a) w =
     (case report_aen_locked K kzalloc_ok a w of
        (Some res, w1) \<Rightarrow> w1
      | (None, w1) \<Rightarrow> w1\<lparr>queue_work_due := queue_work_due w1 @ [aen_sess a]\<rparr>)"
| "step K (Report_queue_work p) w =
     (if p \<in> set (queue_work_due w)
      then report_aen_queue_work p (w\<lparr>queue_work_due := remove1 p (queue_work_due w)\<rparr>)
      else w)"
| "step K (Start_aen_work p) w =
     (if aen_work (sessions w p) then upd_sess p (\<lambda>s. s\<lparr>aen_work := False\<rparr>) w else w)"
| "step K (Aen_take p cleanup_only) w =
     (case aen_work_list (sessions w p) of
        [] \<Rightarrow> w
      | work_item # rest \<Rightarrow>
          (case aen_take p rest w of
             (host, w1) \<Rightarrow>
               w1\<lparr>taken := taken w1 @ [\<lparr>fr_sess = p, fr_cleanup_only = cleanup_only,
                                           fr_work_item = work_item, fr_shost = host\<rparr>]\<rparr>))"
| "step K (Aen_deliver n) w =
     (if n < length (taken w)
      then (let f = taken w ! n;
                w1 = w\<lparr>taken := take n (taken w) @ drop (Suc n) (taken w)\<rparr>
            in snd (aen_deliver K (fr_cleanup_only f) (fr_work_item f) (fr_shost f) w1))
      else w)"
| "step K (Release_cancel p) w = release_adapter_cancel p w"
| "step K (Release_unregister p) w = release_adapter_unregister p w"

fun run :: "hdr \<Rightarrow> op list \<Rightarrow> scst_local \<Rightarrow> scst_local" where
  "run K [] w = w"
| "run K (x # xs) w = run K xs (step K x w)"

text \<open>Readings of the state and of the trace: the AENs waiting on the queue of session
  \<open>p\<close>, the AENs of session \<open>p\<close> that an iteration has taken off the queue and not yet
  delivered, the AENs of session \<open>p\<close> acknowledged by \<open>scst_aen_done\<close>, and the
  number of times the removal of session \<open>p\<close> has run (\<open>device_unregister\<close> is called by
  \<open>scst_local_remove_adapter\<close> only).\<close>

definition queued :: "nat \<Rightarrow> scst_local \<Rightarrow> scst_aen list" where
  "queued p w = map aen (aen_work_list (sessions w p))"

definition in_flight :: "nat \<Rightarrow> aen_frame list \<Rightarrow> scst_aen list" where
  "in_flight p fs = map (\<lambda>f. aen (fr_work_item f)) (filter (\<lambda>f. fr_sess f = p) fs)"

fun acked :: "nat \<Rightarrow> call list \<Rightarrow> scst_aen list" where
  "acked p [] = []"
| "acked p (Scst_aen_done a # cs) = (if aen_sess a = p then a # acked p cs else acked p cs)"
| "acked p (c # cs) = acked p cs"

definition removal_runs :: "nat \<Rightarrow> call list \<Rightarrow> nat" where
  "removal_runs p cs = length (filter (\<lambda>c. c = Device_unregister p) cs)"

text \<open>The AENs that the reports of a run put on the queue of session \<open>p\<close>, in order: a
  report enqueues its AEN when the queue is not the same after it.\<close>

fun enqueued :: "hdr \<Rightarrow> nat \<Rightarrow> op list \<Rightarrow> scst_local \<Rightarrow> scst_aen list" where
  "enqueued K p [] w = []"
| "enqueued K p (Report_aen kzalloc_ok a # xs) w =
     (if aen_sess a = p \<and> queued p (step K (Report_aen kzalloc_ok a) w) \<noteq> queued p w
      then [a] else [])
       @ enqueued K p xs (step K (Report_aen kzalloc_ok a) w)"
| "enqueued K p (Report_locked kzalloc_ok a # xs) w =
     (if aen_sess a = p \<and> queued p (step K (Report_locked kzalloc_ok a) w) \<noteq> queued p w
      then [a] else [])
       @ enqueued K p xs (step K (Report_locked kzalloc_ok a) w)"
| "enqueued K p (x # xs) w = enqueued K p xs (step K x w)"

text \<open>Every queued work item sits on the queue of the session its AEN belongs to and holds
  an AEN of the SCSI kind, and so does the item of every frame.\<close>

definition queues_ok :: "hdr \<Rightarrow> scst_local \<Rightarrow> bool" where
  "queues_ok K w =
     ((\<forall>q. \<forall>i \<in> set (aen_work_list (sessions w q)).
         aen_sess (aen i) = q \<and> event_fn (aen i) = SCST_AEN_SCSI K)
      \<and> (\<forall>f \<in> set (taken w).
            aen_sess (aen (fr_work_item f)) = fr_sess f
            \<and> event_fn (aen (fr_work_item f)) = SCST_AEN_SCSI K))"

subsection \<open>Auxiliary notions of the proofs\<close>

text \<open>The calls of the second part of an iteration of the loop of \<open>scst_process_aens\<close>
  that does not hit \<open>sBUG_ON\<close>, for the local \<open>shost\<close>: the rescan, if the iteration is not
  cleanup-only and has a host, and the acknowledgement.\<close>

definition deliver_calls :: "bool \<Rightarrow> Scsi_Host option \<Rightarrow> scst_aen_work_item \<Rightarrow> call list" where
  "deliver_calls cleanup_only host i =
     (if cleanup_only then []
      else case host of
             None \<Rightarrow> []
           | Some h \<Rightarrow> [Scsi_scan_target (host_no h)])
     @ [Scst_aen_done (aen i)]"

text \<open>The calls of one whole iteration of the loop of \<open>scst_process_aens\<close> that does not hit
  \<open>sBUG_ON\<close>, for the host \<open>h\<close> in \<open>sess->shost\<close>; the calls the loop can make at all; and
  the relation between the latch, the pending bit of \<open>remove_work\<close> and the number of
  removals that every step of a run keeps (\<open>n\<close> is the number of removals before the
  session was closed).\<close>

definition item_calls :: "bool \<Rightarrow> Scsi_Host option \<Rightarrow> scst_aen_work_item \<Rightarrow> call list" where
  "item_calls cleanup_only h i =
     (if cleanup_only then []
      else case h of
             None \<Rightarrow> []
           | Some x \<Rightarrow> if shost_del x then [] else [Scsi_scan_target (host_no x)])
     @ [Scst_aen_done (aen i)]"

fun aen_call :: "call \<Rightarrow> bool" where
  "aen_call (Scsi_scan_target h) = True"
| "aen_call (Scst_aen_done a) = True"
| "aen_call BUG = True"
| "aen_call c = False"

definition removal_inv :: "nat \<Rightarrow> nat \<Rightarrow> scst_local \<Rightarrow> bool" where
  "removal_inv p n v =
     (if unregistering (sessions v p)
      then removal_runs p (calls v) = (if remove_work (sessions v p) then n else n + 1)
      else \<not> remove_work (sessions v p) \<and> removal_runs p (calls v) = n)"

subsection \<open>Concrete objects\<close>

text \<open>Target ``T'' at address 0 with its session ``H'' (sequence number 1) at address 0,
  idle; and the same session with its latch set.\<close>

definition zero_tgt :: scst_local_tgt where
  "zero_tgt = \<lparr>tgt_name = [], sessions_list = [], scsi_transport_version = 0,
     phys_transport_version = 0\<rparr>"

definition zero_sess :: scst_local_sess where
  "zero_sess = \<lparr>initiator_name = [], unregistering = False, shost = None, tgt = 0, number = 0,
     aen_work = False, aen_work_list = [], remove_work = False\<rparr>"

definition host7 :: Scsi_Host where
  "host7 = \<lparr>host_no = 7, shost_del = False\<rparr>"

definition tgt_T :: scst_local_tgt where
  "tgt_T = \<lparr>tgt_name = ''T'', sessions_list = [0], scsi_transport_version = 0,
     phys_transport_version = 0\<rparr>"

definition sess_H :: scst_local_sess where
  "sess_H = \<lparr>initiator_name = ''H'', unregistering = False, shost = Some host7, tgt = 0,
     number = 1, aen_work = False, aen_work_list = [], remove_work = False\<rparr>"

definition world0 :: scst_local where
  "world0 = \<lparr>scst_local_exit_rwsem = \<lparr>writer = False, readers = 0\<rparr>,
     scst_local_tgts_list = [0], scst_local_sess_num = 1,
     num_aborts = 0, num_dev_resets = 0, num_target_resets = 0,
     tgts = (\<lambda>_. zero_tgt)(0 := tgt_T),
     sessions = (\<lambda>_. zero_sess)(0 := sess_H),
     calls = [], taken = [], queue_work_due = []\<rparr>"

definition world_closing :: scst_local where
  "world_closing = upd_sess 0 (\<lambda>s. s\<lparr>unregistering := True\<rparr>) world0"

definition scmd0 :: scsi_cmnd where
  "scmd0 = \<lparr>cmd_sess = 0, lun = 0, unique_tag = 5, cmnd = [0x28],
     sc_data_direction = DMA_FROM_DEVICE, bidi_cmnd = False, bufflen = 512, sg_count = 1,
     tagged_supported = True, simple_tags = True, result = 0, resid = 0\<rparr>"

definition cmd0 :: scst_cmd where
  "cmd0 = \<lparr>cmd_tag = 0, queue_type = SCST_CMD_QUEUE_UNTAGGED, expected = None,
     noio_mem_alloc = False, tgt_sg = None, tgt_priv = None\<rparr>"

definition aen_A :: scst_aen where
  "aen_A = \<lparr>aen_id = 1, aen_sess = 0, event_fn = 0\<rparr>"

definition aen_B :: scst_aen where
  "aen_B = \<lparr>aen_id = 2, aen_sess = 0, event_fn = 0\<rparr>"

text \<open>An AEN of another kind than SCSI; the state while \<open>scst_local_exit\<close> holds the exit
  semaphore; and answers of the kernel and the engine that accept a new session and a new
  target at address 1.\<close>

definition aen_other :: scst_aen where
  "aen_other = \<lparr>aen_id = 3, aen_sess = 0, event_fn = 1\<rparr>"

definition world_exiting :: scst_local where
  "world_exiting = world0\<lparr>scst_local_exit_rwsem := \<lparr>writer = True, readers = 0\<rparr>\<rparr>"

definition host8 :: Scsi_Host where
  "host8 = \<lparr>host_no = 8, shost_del = False\<rparr>"

definition env0 :: adapter_env where
  "env0 = \<lparr>sess_kzalloc = Some 1, register_session_ok = True, device_register_res = 0,
     probed_shost = Some host8, sysfs_create_link_res = 0, initiator_has_luns = True\<rparr>"

definition tenv0 :: target_env where
  "tenv0 = \<lparr>tgt_kzalloc = Some 1, register_target_ok = True\<rparr>"

text \<open>A close that races with a report. AEN A is reported; the report of AEN B puts B on
  the list and is held up before its \<open>queue_work\<close>; the engine closes the session and the
  removal runs up to \<open>cancel_work_sync\<close> in \<open>scst_local_release_adapter\<close>, which cancels
  the AEN work that the report of A had queued; the cleanup-only drain takes A off the
  list; now the report of B calls \<open>queue_work\<close>, the worker runs and acknowledges B; then
  the drain acknowledges A, finds the list empty and unregisters the session.\<close>

definition close_report_race :: "op list" where
  "close_report_race =
     [Report_aen True aen_A, Report_locked True aen_B, Close_session 0, Run_remove_work 0,
      Driver_remove 0, Release_cancel 0, Aen_take 0 True, Report_queue_work 0, Run_aen_work 0,
      Aen_deliver 0, Aen_take 0 True, Release_unregister 0]"

lemmas ex_defs = zero_tgt_def zero_sess_def host7_def tgt_T_def sess_H_def world0_def
  world_closing_def scmd0_def cmd0_def aen_A_def aen_B_def linux_hdr_def aen_other_def
  world_exiting_def host8_def env0_def tenv0_def close_report_race_def

section \<open>Properties\<close>

subsection \<open>The loop of scst_process_aens\<close>

lemma process_aens_closed:
  assumes "aen_work_list (sessions w s) = xs"
    and "c \<or> (\<forall>i \<in> set xs. event_fn (aen i) = SCST_AEN_SCSI K)"
  shows "scst_process_aens K s c w =
     w\<lparr>sessions := (sessions w)(s := (sessions w s)\<lparr>aen_work_list := []\<rparr>),
       calls := calls w @ concat (map (item_calls c (shost (sessions w s))) xs)\<rparr>"
  using assms
proof (induction xs arbitrary: w)
  case Nil
  then show ?case
    by (subst scst_process_aens.simps) (simp add: fun_upd_idem)
next
  case (Cons x xs)
  let ?w1 = "upd_sess s (\<lambda>t. t\<lparr>aen_work_list := xs\<rparr>) w"
  let ?w3 = "emit (item_calls c (shost (sessions w s)) x) ?w1"
  have q: "aen_work_list (sessions ?w3 s) = xs"
    by (simp add: emit_def upd_sess_def)
  have ok: "c \<or> (\<forall>i \<in> set xs. event_fn (aen i) = SCST_AEN_SCSI K)"
    using Cons.prems by auto
  have unfold: "scst_process_aens K s c w = scst_process_aens K s c ?w3"
    using Cons.prems
    by (subst scst_process_aens.simps)
       (auto simp: aen_iteration_def aen_take_def aen_deliver_def Let_def emit_def upd_sess_def
          item_calls_def split: option.splits)
  show ?case
    unfolding unfold Cons.IH [OF q ok]
    by (simp add: emit_def upd_sess_def fun_upd_def cong: if_cong)
qed

text \<open>Whatever the queue holds, the loop only shortens the queue of its session and only
  makes the calls of \<open>aen_call\<close>: a property kept by both is kept by the loop.\<close>

lemma process_aens_frame:
  assumes q: "\<And>v l. P v \<Longrightarrow> P (upd_sess s (\<lambda>t. t\<lparr>aen_work_list := l\<rparr>) v)"
    and e: "\<And>v x. P v \<Longrightarrow> aen_call x \<Longrightarrow> P (emit [x] v)"
  shows "P w \<Longrightarrow> P (scst_process_aens K s c w)"
proof (induction "aen_work_list (sessions w s)" arbitrary: w)
  case Nil
  then show ?case by (subst scst_process_aens.simps) simp
next
  case (Cons x xs)
  let ?w1 = "upd_sess s (\<lambda>t. t\<lparr>aen_work_list := xs\<rparr>) w"
  have p1: "P ?w1" using Cons.prems q by blast
  have l1: "aen_work_list (sessions ?w1 s) = xs" by (simp add: upd_sess_def)
  have rec: "\<And>v. P v \<Longrightarrow> aen_work_list (sessions v s) = xs \<Longrightarrow> P (scst_process_aens K s c v)"
    using Cons.hyps(1) by metis
  have l2: "\<And>v y. aen_work_list (sessions (emit y v) s) = aen_work_list (sessions v s)"
    by (simp add: emit_def)
  show ?case
    apply (subst scst_process_aens.simps)
    using Cons.hyps(2) [symmetric] p1 l1 l2 e rec
    by (auto simp: aen_iteration_def aen_take_def aen_deliver_def Let_def split: option.splits)
qed

lemma acked_append: "acked p (xs @ ys) = acked p xs @ acked p ys"
  by (induction p xs rule: acked.induct) simp_all

lemma acked_items:
  "\<forall>i \<in> set items. aen_sess (aen i) = q \<Longrightarrow>
   acked p (concat (map (item_calls c h) items)) = (if q = p then map aen items else [])"
  by (induction items) (auto simp: item_calls_def acked_append split: option.splits)

lemma acked_deliver:
  "acked p (deliver_calls c h i) = (if aen_sess (aen i) = p then [aen i] else [])"
  by (simp add: deliver_calls_def split: option.splits)

lemma bug_deliver: "BUG \<notin> set (deliver_calls c h i)"
  by (simp add: deliver_calls_def split: option.splits)

lemma deliver_closed:
  "c \<or> event_fn (aen i) = SCST_AEN_SCSI K \<Longrightarrow>
   aen_deliver K c i h w = (True, emit (deliver_calls c h i) w)"
  by (auto simp: aen_deliver_def deliver_calls_def Let_def emit_def split: option.splits)

lemma items_live_host:
  "\<not> shost_del h \<Longrightarrow>
   concat (map (item_calls False (Some h)) items)
     = concat (map (\<lambda>i. [Scsi_scan_target (host_no h), Scst_aen_done (aen i)]) items)"
  by (induction items) (simp_all add: item_calls_def)

lemma items_cleanup:
  "concat (map (item_calls True h) items) = map (\<lambda>i. Scst_aen_done (aen i)) items"
  by (induction items) (simp_all add: item_calls_def)

lemma in_flight_append: "in_flight p (xs @ ys) = in_flight p xs @ in_flight p ys"
  by (simp add: in_flight_def)

lemma in_flight_nth:
  "n < length fs \<Longrightarrow>
   mset (in_flight p fs) =
     mset (in_flight p (take n fs @ drop (Suc n) fs))
       + mset (if fr_sess (fs ! n) = p then [aen (fr_work_item (fs ! n))] else [])"
  by (subst id_take_nth_drop [of n fs], assumption)
     (simp add: in_flight_def del: append_take_drop_id)

lemma bug_items: "BUG \<notin> set (concat (map (item_calls c h) items))"
  by (induction items) (auto simp: item_calls_def split: option.splits)

lemma queue_scsi:
  "queues_ok K w \<Longrightarrow> \<forall>i \<in> set (aen_work_list (sessions w q)). event_fn (aen i) = SCST_AEN_SCSI K"
  by (simp add: queues_ok_def)

lemma frame_ok:
  "queues_ok K w \<Longrightarrow> n < length (taken w) \<Longrightarrow>
   aen_sess (aen (fr_work_item (taken w ! n))) = fr_sess (taken w ! n)
   \<and> event_fn (aen (fr_work_item (taken w ! n))) = SCST_AEN_SCSI K"
  by (simp add: queues_ok_def)

lemma queues_ok_cong:
  "queues_ok K w \<Longrightarrow>
   (\<And>q. set (aen_work_list (sessions v q)) \<subseteq> set (aen_work_list (sessions w q))) \<Longrightarrow>
   set (taken v) \<subseteq> set (taken w) \<Longrightarrow> queues_ok K v"
  unfolding queues_ok_def by blast

lemma queue_owner:
  "queues_ok K w \<Longrightarrow> \<forall>i \<in> set (aen_work_list (sessions w q)). aen_sess (aen i) = q"
  by (simp add: queues_ok_def)

lemma work_fn_closed:
  assumes "queues_ok K w"
  shows "scst_aen_work_fn K q (upd_sess q (\<lambda>s. s\<lparr>aen_work := False\<rparr>) w) =
     w\<lparr>sessions := (sessions w)(q := (sessions w q)\<lparr>aen_work := False, aen_work_list := []\<rparr>),
       calls := calls w @ concat (map (item_calls False (shost (sessions w q)))
                                   (aen_work_list (sessions w q)))\<rparr>"
proof -
  let ?w = "upd_sess q (\<lambda>s. s\<lparr>aen_work := False\<rparr>) w"
  have l: "aen_work_list (sessions ?w q) = aen_work_list (sessions w q)"
    by (simp add: upd_sess_def)
  have ok: "False \<or> (\<forall>i \<in> set (aen_work_list (sessions w q)). event_fn (aen i) = SCST_AEN_SCSI K)"
    using queue_scsi [OF assms] by simp
  show ?thesis
    unfolding scst_aen_work_fn_def process_aens_closed [OF l ok]
    by (simp add: upd_sess_def)
qed

lemma release_closed:
  "scst_local_release_adapter K q w =
     w\<lparr>sessions := (sessions w)(q := (sessions w q)\<lparr>aen_work := False, aen_work_list := []\<rparr>),
       calls := calls w @ [Cancel_work_sync q]
                @ concat (map (item_calls True (shost (sessions w q))) (aen_work_list (sessions w q)))
                @ [Scst_unregister_session q]\<rparr>"
proof -
  let ?w = "release_adapter_cancel q w"
  have l: "aen_work_list (sessions ?w q) = aen_work_list (sessions w q)"
    by (simp add: release_adapter_cancel_def upd_sess_def emit_def)
  have ok: "True \<or> (\<forall>i \<in> set (aen_work_list (sessions w q)). event_fn (aen i) = SCST_AEN_SCSI K)"
    by simp
  show ?thesis
    unfolding scst_local_release_adapter_def Let_def process_aens_closed [OF l ok]
    by (simp add: release_adapter_cancel_def release_adapter_unregister_def upd_sess_def emit_def)
qed

subsection \<open>Closing a session\<close>

lemma latch_idem: "unregistering s \<Longrightarrow> s\<lparr>unregistering := True\<rparr> = s"
  by (cases s) simp

lemma close_closed:
  "scst_local_close_session_impl q async w =
     (if unregistering (sessions w q) then w
      else if async then
        w\<lparr>sessions := (sessions w)(q := (sessions w q)\<lparr>unregistering := True, remove_work := True\<rparr>),
          calls := calls w @ [Schedule_work q]\<rparr>
      else
        w\<lparr>sessions := (sessions w)(q := (sessions w q)\<lparr>unregistering := True\<rparr>),
          tgts := (tgts w)(tgt (sessions w q) :=
                    (tgts w (tgt (sessions w q)))\<lparr>sessions_list :=
                       remove1 q (sessions_list (tgts w (tgt (sessions w q))))\<rparr>),
          calls := calls w @ [Device_unregister q]\<rparr>)"
  by (simp add: scst_local_close_session_impl_def Let_def upd_sess_def emit_def
      scst_local_remove_adapter_def upd_tgt_def latch_idem)

lemma close_latched:
  "unregistering (sessions w sess) \<Longrightarrow> scst_local_close_session_impl sess async w = w"
  by (simp add: close_closed)

lemma close_sets_latch:
  "unregistering (sessions (scst_local_close_session_impl sess async w) sess)"
  by (simp add: close_closed)

lemma close_repeat:
  "unregistering (sessions w sess) \<Longrightarrow>
     foldl (\<lambda>v a. scst_local_close_session_impl sess a v) w flags = w"
  by (induction flags) (simp_all add: close_latched)

subsection \<open>Invariants of runs\<close>

lemma step_inv:
  assumes "queues_ok K w"
  shows "queues_ok K (step K x w)
    \<and> mset (acked p (calls (step K x w))) + mset (in_flight p (taken (step K x w)))
         + mset (queued p (step K x w))
        = mset (acked p (calls w)) + mset (in_flight p (taken w)) + mset (queued p w)
            + mset (enqueued K p [x] w)
    \<and> (BUG \<in> set (calls (step K x w)) \<longrightarrow> BUG \<in> set (calls w))
    \<and> (unregistering (sessions w p) \<longrightarrow> unregistering (sessions (step K x w) p))"
proof (cases x)
  case (Report_aen ok a)
  then show ?thesis
    using assms
    by (auto simp: scst_local_report_aen_def report_aen_locked_def report_aen_queue_work_def
        Let_def upd_sess_def emit_def queues_ok_def queued_def acked_append)
next
  case (Run_aen_work q)
  then show ?thesis
    using assms acked_items [OF queue_owner [OF assms, of q], of p False "shost (sessions w q)"]
      bug_items [of False "shost (sessions w q)" "aen_work_list (sessions w q)"]
    by (auto simp: work_fn_closed queues_ok_def queued_def acked_append)
next
  case (Run_aen_iteration q)
  show ?thesis
  proof (cases "aen_work_list (sessions w q)")
    case Nil
    then show ?thesis
      using Run_aen_iteration assms by simp
  next
    case (Cons i rest)
    have own: "aen_sess (aen i) = q" and kind: "event_fn (aen i) = SCST_AEN_SCSI K"
      using queue_owner [OF assms, of q] queue_scsi [OF assms, of q] Cons by simp_all
    have st: "step K x w =
        w\<lparr>sessions := (sessions w)(q := (sessions w q)\<lparr>aen_work_list := rest\<rparr>),
          calls := calls w @ item_calls False (shost (sessions w q)) i\<rparr>"
      using Run_aen_iteration Cons kind
      by (simp add: aen_iteration_def aen_take_def aen_deliver_def Let_def upd_sess_def emit_def
          item_calls_def split: option.splits)
    have ok: "queues_ok K (step K x w)"
      using assms
    proof (rule queues_ok_cong)
      show "set (aen_work_list (sessions (step K x w) q'))
              \<subseteq> set (aen_work_list (sessions w q'))" for q'
        using Cons by (cases "q' = q") (auto simp: st)
      show "set (taken (step K x w)) \<subseteq> set (taken w)"
        by (simp add: st)
    qed
    have ack: "acked p (item_calls False (shost (sessions w q)) i) = (if q = p then [aen i] else [])"
      using own by (simp add: item_calls_def split: option.splits)
    have nobug: "BUG \<notin> set (item_calls False (shost (sessions w q)) i)"
      by (simp add: item_calls_def split: option.splits)
    have enq: "enqueued K p [x] w = []"
      using Run_aen_iteration by simp
    show ?thesis
      using ok ack nobug enq Cons
      by (simp add: st queued_def acked_append)
  qed
next
  case (Close_session q)
  then show ?thesis
    using assms
    by (auto simp: scst_local_close_session_def close_closed queues_ok_def queued_def acked_append)
next
  case (Close_session_sync q)
  then show ?thesis
    using assms
    by (auto simp: close_closed queues_ok_def queued_def acked_append)
next
  case (Run_remove_work q)
  then show ?thesis
    using assms
    by (auto simp: scst_remove_work_fn_def scst_local_remove_adapter_def Let_def upd_sess_def
        upd_tgt_def emit_def queues_ok_def queued_def acked_append)
next
  case (Driver_remove q)
  then show ?thesis
    using assms
    by (auto simp: scst_local_driver_remove_def Let_def upd_sess_def
        emit_def queues_ok_def queued_def acked_append)
next
  case (Release_adapter q)
  then show ?thesis
    using assms acked_items [OF queue_owner [OF assms, of q], of p True "shost (sessions w q)"]
      bug_items [of True "shost (sessions w q)" "aen_work_list (sessions w q)"]
    by (auto simp: release_closed queues_ok_def queued_def acked_append)
next
  case (Report_locked ok a)
  then show ?thesis
    using assms
    by (auto simp: report_aen_locked_def Let_def upd_sess_def queues_ok_def queued_def)
next
  case (Report_queue_work q)
  then show ?thesis
    using assms
    by (auto simp: report_aen_queue_work_def upd_sess_def emit_def queues_ok_def queued_def
        acked_append)
next
  case (Start_aen_work q)
  then show ?thesis
    using assms
    by (auto simp: upd_sess_def queues_ok_def queued_def)
next
  case (Aen_take q c)
  show ?thesis
  proof (cases "aen_work_list (sessions w q)")
    case Nil
    then show ?thesis
      using Aen_take assms by simp
  next
    case (Cons i rest)
    have own: "aen_sess (aen i) = q" and kind: "event_fn (aen i) = SCST_AEN_SCSI K"
      using queue_owner [OF assms, of q] queue_scsi [OF assms, of q] Cons by simp_all
    obtain h where st: "step K x w =
        w\<lparr>sessions := (sessions w)(q := (sessions w q)\<lparr>aen_work_list := rest\<rparr>),
          taken := taken w @ [\<lparr>fr_sess = q, fr_cleanup_only = c, fr_work_item = i,
                                fr_shost = h\<rparr>]\<rparr>"
      using Aen_take Cons by (simp add: aen_take_def Let_def upd_sess_def)
    have ok: "queues_ok K (step K x w)"
      unfolding st queues_ok_def
    proof (intro conjI allI ballI)
      fix q' j
      assume "j \<in> set (aen_work_list (sessions (w\<lparr>sessions := (sessions w)
                (q := (sessions w q)\<lparr>aen_work_list := rest\<rparr>),
              taken := taken w @ [\<lparr>fr_sess = q, fr_cleanup_only = c, fr_work_item = i,
                                    fr_shost = h\<rparr>]\<rparr>) q'))"
      then have "j \<in> set (aen_work_list (sessions w q'))"
        using Cons by (cases "q' = q") simp_all
      then show "aen_sess (aen j) = q'" "event_fn (aen j) = SCST_AEN_SCSI K"
        using assms by (simp_all add: queues_ok_def)
    next
      fix f
      assume "f \<in> set (taken (w\<lparr>sessions := (sessions w)
                (q := (sessions w q)\<lparr>aen_work_list := rest\<rparr>),
              taken := taken w @ [\<lparr>fr_sess = q, fr_cleanup_only = c, fr_work_item = i,
                                    fr_shost = h\<rparr>]\<rparr>))"
      then have "f \<in> set (taken w)
          \<or> f = \<lparr>fr_sess = q, fr_cleanup_only = c, fr_work_item = i, fr_shost = h\<rparr>"
        by auto
      then show "aen_sess (aen (fr_work_item f)) = fr_sess f"
        "event_fn (aen (fr_work_item f)) = SCST_AEN_SCSI K"
        using assms own kind by (auto simp: queues_ok_def)
    qed
    have enq: "enqueued K p [x] w = []"
      using Aen_take by simp
    show ?thesis
      using ok enq Cons
      by (simp add: st queued_def in_flight_def)
  qed
next
  case (Aen_deliver n)
  show ?thesis
  proof (cases "n < length (taken w)")
    case False
    then show ?thesis
      using Aen_deliver assms by simp
  next
    case True
    let ?f = "taken w ! n"
    note fr = frame_ok [OF assms True]
    have st: "step K x w =
        w\<lparr>taken := take n (taken w) @ drop (Suc n) (taken w),
          calls := calls w
            @ deliver_calls (fr_cleanup_only ?f) (fr_shost ?f) (fr_work_item ?f)\<rparr>"
      using Aen_deliver True fr
      by (simp add: Let_def deliver_closed emit_def)
    have ok: "queues_ok K (step K x w)"
      using assms
    proof (rule queues_ok_cong)
      show "set (aen_work_list (sessions (step K x w) q'))
              \<subseteq> set (aen_work_list (sessions w q'))" for q'
        by (simp add: st)
      show "set (taken (step K x w)) \<subseteq> set (taken w)"
        using set_take_subset [of n "taken w"] set_drop_subset [of "Suc n" "taken w"]
        by (auto simp: st)
    qed
    have enq: "enqueued K p [x] w = []"
      using Aen_deliver by simp
    show ?thesis
      using ok enq fr in_flight_nth [OF True, of p]
        bug_deliver [of "fr_cleanup_only ?f" "fr_shost ?f" "fr_work_item ?f"]
      by (simp add: st queued_def acked_append acked_deliver)
  qed
next
  case (Release_cancel q)
  then show ?thesis
    using assms
    by (auto simp: release_adapter_cancel_def upd_sess_def emit_def queues_ok_def queued_def
        acked_append)
next
  case (Release_unregister q)
  then show ?thesis
    using assms
    by (auto simp: release_adapter_unregister_def emit_def queues_ok_def queued_def acked_append)
qed

lemma enqueued_Cons:
  "enqueued K p (x # xs) w = enqueued K p [x] w @ enqueued K p xs (step K x w)"
  by (cases x) simp_all

lemma run_inv:
  assumes "queues_ok K w"
  shows "queues_ok K (run K ops w)
    \<and> mset (acked p (calls (run K ops w))) + mset (in_flight p (taken (run K ops w)))
         + mset (queued p (run K ops w))
        = mset (acked p (calls w)) + mset (in_flight p (taken w)) + mset (queued p w)
            + mset (enqueued K p ops w)
    \<and> (BUG \<in> set (calls (run K ops w)) \<longrightarrow> BUG \<in> set (calls w))
    \<and> (unregistering (sessions w p) \<longrightarrow> unregistering (sessions (run K ops w) p))"
  using assms
proof (induction ops arbitrary: w)
  case Nil
  then show ?case by simp
next
  case (Cons x xs)
  note s = step_inv [OF Cons.prems, of x p]
  note r = Cons.IH [of "step K x w"]
  show ?case
    using s r by (simp add: enqueued_Cons [of K p x xs w] ac_simps)
qed

lemma enqueued_one_latched:
  "unregistering (sessions w p) \<Longrightarrow> enqueued K p [x] w = []"
  by (cases x)
     (auto simp: scst_local_report_aen_def report_aen_locked_def report_aen_queue_work_def
        Let_def)

lemma enqueued_latched:
  "queues_ok K w \<Longrightarrow> unregistering (sessions w p) \<Longrightarrow> enqueued K p ops w = []"
proof (induction ops arbitrary: w)
  case Nil
  then show ?case by simp
next
  case (Cons x xs)
  note s = step_inv [OF Cons.prems(1), of x p]
  show ?case
    using s Cons.prems(2) Cons.IH [of "step K x w"]
    by (simp add: enqueued_Cons [of K p x xs w] enqueued_one_latched)
qed

lemma removal_inv_cong:
  "removal_inv p n v \<Longrightarrow> unregistering (sessions v' p) = unregistering (sessions v p) \<Longrightarrow>
   remove_work (sessions v' p) = remove_work (sessions v p) \<Longrightarrow>
   removal_runs p (calls v') = removal_runs p (calls v) \<Longrightarrow> removal_inv p n v'"
  by (simp add: removal_inv_def)

lemma removal_inv_queue:
  "removal_inv p n v \<Longrightarrow> removal_inv p n (upd_sess s (\<lambda>t. t\<lparr>aen_work_list := l\<rparr>) v)"
  by (erule removal_inv_cong) (simp_all add: upd_sess_def)

lemma removal_inv_emit:
  "removal_inv p n v \<Longrightarrow> aen_call x \<Longrightarrow> removal_inv p n (emit [x] v)"
  by (erule removal_inv_cong) (cases x; simp add: emit_def removal_runs_def)+

lemma removal_inv_process:
  "removal_inv p n v \<Longrightarrow> removal_inv p n (scst_process_aens K s c v)"
  by (rule process_aens_frame [where P = "removal_inv p n"])
     (simp_all add: removal_inv_queue removal_inv_emit)

lemma removal_inv_step:
  assumes "removal_inv p n v"
  shows "removal_inv p n (step K x v)"
proof (cases x)
  case (Report_aen ok a)
  then show ?thesis
    using assms
    by (auto simp: scst_local_report_aen_def report_aen_locked_def report_aen_queue_work_def
        Let_def upd_sess_def emit_def removal_inv_def removal_runs_def split: if_splits)
next
  case (Run_aen_work q)
  have "removal_inv p n (upd_sess q (\<lambda>s. s\<lparr>aen_work := False\<rparr>) v)"
    using assms by (rule removal_inv_cong) (simp_all add: upd_sess_def)
  then show ?thesis
    using Run_aen_work assms by (simp add: scst_aen_work_fn_def removal_inv_process)
next
  case (Run_aen_iteration q)
  then show ?thesis
    using assms
    by (cases "aen_work_list (sessions v q)")
       (auto simp: aen_iteration_def aen_take_def aen_deliver_def Let_def upd_sess_def emit_def
          removal_inv_def removal_runs_def split: if_splits option.splits)
next
  case (Close_session q)
  then show ?thesis
    using assms
    by (auto simp: scst_local_close_session_def close_closed removal_inv_def removal_runs_def
        split: if_splits)
next
  case (Close_session_sync q)
  then show ?thesis
    using assms
    by (auto simp: close_closed removal_inv_def removal_runs_def split: if_splits)
next
  case (Run_remove_work q)
  then show ?thesis
    using assms
    by (auto simp: scst_remove_work_fn_def scst_local_remove_adapter_def Let_def upd_sess_def
        upd_tgt_def emit_def removal_inv_def removal_runs_def split: if_splits)
next
  case (Driver_remove q)
  then show ?thesis
    using assms
    by (auto simp: scst_local_driver_remove_def Let_def upd_sess_def
        emit_def removal_inv_def removal_runs_def split: if_splits)
next
  case (Release_adapter q)
  have a: "removal_inv p n (release_adapter_cancel q v)"
    using assms
    by (rule removal_inv_cong)
       (simp_all add: release_adapter_cancel_def upd_sess_def emit_def removal_runs_def)
  have "removal_inv p n (release_adapter_unregister q
          (scst_process_aens K q True (release_adapter_cancel q v)))"
    using removal_inv_process [OF a, of K q True]
    by (rule removal_inv_cong)
       (simp_all add: release_adapter_unregister_def emit_def removal_runs_def)
  then show ?thesis
    using Release_adapter by (simp add: scst_local_release_adapter_def Let_def)
next
  case (Report_locked ok a)
  show ?thesis
    using assms
    by (rule removal_inv_cong)
       (auto simp: Report_locked report_aen_locked_def Let_def upd_sess_def)
next
  case (Report_queue_work q)
  show ?thesis
    using assms
    by (rule removal_inv_cong)
       (auto simp: Report_queue_work report_aen_queue_work_def upd_sess_def emit_def
          removal_runs_def)
next
  case (Start_aen_work q)
  show ?thesis
    using assms
    by (rule removal_inv_cong) (auto simp: Start_aen_work upd_sess_def)
next
  case (Aen_take q c)
  show ?thesis
    using assms
    by (rule removal_inv_cong)
       (auto simp: Aen_take aen_take_def Let_def upd_sess_def split: list.splits)
next
  case (Aen_deliver m)
  show ?thesis
    using assms
    by (rule removal_inv_cong)
       (auto simp: Aen_deliver aen_deliver_def Let_def emit_def removal_runs_def
          split: option.splits)
next
  case (Release_cancel q)
  show ?thesis
    using assms
    by (rule removal_inv_cong)
       (auto simp: Release_cancel release_adapter_cancel_def upd_sess_def emit_def
          removal_runs_def)
next
  case (Release_unregister q)
  show ?thesis
    using assms
    by (rule removal_inv_cong)
       (auto simp: Release_unregister release_adapter_unregister_def emit_def removal_runs_def)
qed

lemma removal_inv_run:
  "removal_inv p n v \<Longrightarrow> removal_inv p n (run K ops v)"
  by (induction ops arbitrary: v) (simp_all add: removal_inv_step)

lemma add_adapter_queues_ok:
  "queues_ok K w \<Longrightarrow> queues_ok K (snd (uu_scst_local_add_adapter K env tgtp initiator locked w))"
  by (auto simp: uu_scst_local_add_adapter_def Let_def queues_ok_def upd_sess_def upd_tgt_def
      emit_def split: option.splits)

lemma world0_queues_ok: "queues_ok K world0"
  by (simp add: queues_ok_def ex_defs)

subsection \<open>Version descriptors\<close>

text \<open>C9 (as amended). The scsi-transport-version getter reports the built-in value 0x0BE0
  when the stored field is zero and the stored field otherwise, so it never reports zero;
  the phys-transport-version getter has no built-in value: it reports the stored field as
  it is, zero included.\<close>

theorem C9_version_getters:
  "scst_local_get_scsi_transport_version t
     = (if scsi_transport_version t = 0 then 0x0BE0 else scsi_transport_version t)
   \<and> scst_local_get_scsi_transport_version (t\<lparr>scsi_transport_version := 0\<rparr>) = 0x0BE0
   \<and> scst_local_get_scsi_transport_version t \<noteq> 0
   \<and> scst_local_get_phys_transport_version t = phys_transport_version t
   \<and> scst_local_get_phys_transport_version (t\<lparr>phys_transport_version := 0\<rparr>) = 0"
  by (simp add: scst_local_get_phys_transport_version_def
      scst_local_get_scsi_transport_version_def)

text \<open>C9 as stated fails: for target ``T'', whose two fields are unset, the phys getter
  returns the unset value 0 while the scsi getter returns its default.\<close>

theorem C9_phys_getter_counterexample:
  "phys_transport_version tgt_T = 0
   \<and> scst_local_get_phys_transport_version tgt_T = 0
   \<and> scst_local_get_scsi_transport_version tgt_T = 0x0BE0"
  by (simp add: tgt_T_def scst_local_get_phys_transport_version_def
      scst_local_get_scsi_transport_version_def)

subsection \<open>Task management\<close>

text \<open>C4. Each of abort, device reset and target reset adds one to its own counter and
  leaves the two other counters alone, whatever the engine's submission call returned; the
  calls it makes are the submission to the engine followed by the wait for the engine's
  completion, whatever the submission returned; and when the submission call returned zero
  it returns SUCCESS after that wait, and has changed nothing but the trace and its
  counter.\<close>

theorem C4_task_mgmt_counter_and_success:
  "num_aborts (snd (scst_local_abort K r scmd w)) = num_aborts w + 1
   \<and> num_dev_resets (snd (scst_local_abort K r scmd w)) = num_dev_resets w
   \<and> num_target_resets (snd (scst_local_abort K r scmd w)) = num_target_resets w
   \<and> num_dev_resets (snd (scst_local_device_reset K r scmd w)) = num_dev_resets w + 1
   \<and> num_aborts (snd (scst_local_device_reset K r scmd w)) = num_aborts w
   \<and> num_target_resets (snd (scst_local_device_reset K r scmd w)) = num_target_resets w
   \<and> num_target_resets (snd (scst_local_target_reset K r scmd w)) = num_target_resets w + 1
   \<and> num_aborts (snd (scst_local_target_reset K r scmd w)) = num_aborts w
   \<and> num_dev_resets (snd (scst_local_target_reset K r scmd w)) = num_dev_resets w
   \<and> fst (scst_local_abort K 0 scmd w) = SUCCESS K
   \<and> fst (scst_local_device_reset K 0 scmd w) = SUCCESS K
   \<and> fst (scst_local_target_reset K 0 scmd w) = SUCCESS K
   \<and> calls (snd (scst_local_abort K r scmd w)) =
       calls w @ [Scst_rx_mgmt_fn_tag (cmd_sess scmd) SCST_ABORT_TASK (unique_tag scmd),
                  Wait_for_completion_interruptible]
   \<and> calls (snd (scst_local_device_reset K r scmd w)) =
       calls w @ [Scst_rx_mgmt_fn_lun (cmd_sess scmd) SCST_LUN_RESET (lun scmd),
                  Wait_for_completion_interruptible]
   \<and> calls (snd (scst_local_target_reset K r scmd w)) =
       calls w @ [Scst_rx_mgmt_fn_lun (cmd_sess scmd) SCST_TARGET_RESET (lun scmd),
                  Wait_for_completion_interruptible]
   \<and> scst_local_abort K 0 scmd w =
       (SUCCESS K,
        w\<lparr>calls := calls w @
             [Scst_rx_mgmt_fn_tag (cmd_sess scmd) SCST_ABORT_TASK (unique_tag scmd),
              Wait_for_completion_interruptible],
          num_aborts := num_aborts w + 1\<rparr>)
   \<and> scst_local_device_reset K 0 scmd w =
       (SUCCESS K,
        w\<lparr>calls := calls w @
             [Scst_rx_mgmt_fn_lun (cmd_sess scmd) SCST_LUN_RESET (lun scmd),
              Wait_for_completion_interruptible],
          num_dev_resets := num_dev_resets w + 1\<rparr>)
   \<and> scst_local_target_reset K 0 scmd w =
       (SUCCESS K,
        w\<lparr>calls := calls w @
             [Scst_rx_mgmt_fn_lun (cmd_sess scmd) SCST_TARGET_RESET (lun scmd),
              Wait_for_completion_interruptible],
          num_target_resets := num_target_resets w + 1\<rparr>)"
  by (simp add: scst_local_abort_def scst_local_device_reset_def scst_local_target_reset_def
      emit_def Let_def)

text \<open>C5 (as amended). When the submission call returns a non-zero error, each of the three
  operations returns that error unchanged, after it has entered the wait on the completion:
  the calls it makes are the submission followed by the wait, and the counter is
  incremented.\<close>

theorem C5_submission_error_after_wait:
  assumes "rx_ret \<noteq> 0"
  shows "scst_local_abort K rx_ret scmd w =
           (rx_ret,
            w\<lparr>calls := calls w @
                 [Scst_rx_mgmt_fn_tag (cmd_sess scmd) SCST_ABORT_TASK (unique_tag scmd),
                  Wait_for_completion_interruptible],
              num_aborts := num_aborts w + 1\<rparr>)
       \<and> scst_local_device_reset K rx_ret scmd w =
           (rx_ret,
            w\<lparr>calls := calls w @
                 [Scst_rx_mgmt_fn_lun (cmd_sess scmd) SCST_LUN_RESET (lun scmd),
                  Wait_for_completion_interruptible],
              num_dev_resets := num_dev_resets w + 1\<rparr>)
       \<and> scst_local_target_reset K rx_ret scmd w =
           (rx_ret,
            w\<lparr>calls := calls w @
                 [Scst_rx_mgmt_fn_lun (cmd_sess scmd) SCST_TARGET_RESET (lun scmd),
                  Wait_for_completion_interruptible],
              num_target_resets := num_target_resets w + 1\<rparr>)"
  using assms
  by (simp add: scst_local_abort_def scst_local_device_reset_def scst_local_target_reset_def
      emit_def Let_def)

theorem C5_submission_error_after_wait_witness:
  "(- 12 :: int) \<noteq> 0
   \<and> fst (scst_local_abort linux_hdr (- 12) scmd0 world0) = - 12
   \<and> fst (scst_local_device_reset linux_hdr (- 12) scmd0 world0) = - 12
   \<and> fst (scst_local_target_reset linux_hdr (- 12) scmd0 world0) = - 12"
  using C5_submission_error_after_wait [of "- 12" linux_hdr scmd0 world0] by simp

text \<open>C5 as stated fails: an abort whose submission returns -ENOMEM (-12) still calls
  \<open>wait_for_completion_interruptible\<close> before it returns the error.\<close>

theorem C5_wait_on_error_counterexample:
  "fst (scst_local_abort linux_hdr (- 12) scmd0 world0) = - 12
   \<and> calls world0 = []
   \<and> calls (snd (scst_local_abort linux_hdr (- 12) scmd0 world0)) =
       [Scst_rx_mgmt_fn_tag 0 SCST_ABORT_TASK 5, Wait_for_completion_interruptible]"
  by (simp add: scst_local_abort_def emit_def Let_def ex_defs)

subsection \<open>Command submission\<close>

text \<open>C3. A command submitted to a session whose unregistering latch is set gets the result
  \<open>DID_BAD_TARGET << 16\<close>, is completed at once by \<open>scsi_done\<close>, and the submit operation
  returns 0; that completion is the only call made, so no command is constructed or handed
  to the engine.\<close>

theorem C3_queuecommand_unregistering:
  assumes "unregistering (sessions w (cmd_sess scmd))"
  shows "scst_local_queuecommand K rx scmd w =
           (0, scmd\<lparr>result := push_bit 16 (DID_BAD_TARGET K)\<rparr>,
            w\<lparr>calls := calls w @ [Scsi_done (scmd\<lparr>result := push_bit 16 (DID_BAD_TARGET K)\<rparr>)]\<rparr>)"
  using assms by (simp add: scst_local_queuecommand_def emit_def Let_def)

theorem C3_queuecommand_unregistering_witness:
  "unregistering (sessions world_closing (cmd_sess scmd0))
   \<and> fst (scst_local_queuecommand linux_hdr (Some cmd0) scmd0 world_closing) = 0
   \<and> result (fst (snd (scst_local_queuecommand linux_hdr (Some cmd0) scmd0 world_closing)))
       = 0x40000
   \<and> calls (snd (snd (scst_local_queuecommand linux_hdr (Some cmd0) scmd0 world_closing))) =
       [Scsi_done (scmd0\<lparr>result := 0x40000\<rparr>)]"
  using C3_queuecommand_unregistering [of world_closing scmd0 linux_hdr "Some cmd0"]
  by (simp add: upd_sess_def ex_defs)

subsection \<open>AEN delivery\<close>

text \<open>C1 (as amended). From a state whose queues are well formed, at every point of every
  run of the session callbacks and of their parts, however they interleave: every AEN
  that was enqueued on session \<open>p\<close>, as often as it was enqueued, is either still queued,
  or taken off the queue by an iteration that has not yet acknowledged it, or
  acknowledged; so none is acknowledged twice, and each has been acknowledged exactly once
  when the queue is empty and no iteration is in flight. \<open>sBUG_ON\<close> has not fired and the
  queues are still well formed. The first part of an iteration takes the head of the queue
  and reads \<open>sess->shost\<close>, under the lock; the second part rescans that host, if the
  iteration is not cleanup-only and the host was there and not being deleted, and then
  acknowledges the item. A worker's pass that runs on its own over a session with a live
  host rescans the host and acknowledges, once for every queued item, in queue order; a
  cleanup-only pass on its own acknowledges every queued item and makes no other call;
  both leave the queue empty, and so does \<open>scst_local_release_adapter\<close>, whose calls are
  \<open>cancel_work_sync\<close>, the acknowledgements and \<open>scst_unregister_session\<close>. The latch, once
  set, stays set, and from then on nothing is enqueued on the session: a report that finds
  it set puts nothing on the queue and has no \<open>queue_work\<close> to come. (No iteration looks
  at the latch: see the counterexample.)\<close>

theorem C1_aen_acknowledged_once:
  assumes "queues_ok K w" and "BUG \<notin> set (calls w)"
  shows "(let v = run K ops w in
      mset (acked p (calls v)) + mset (in_flight p (taken v)) + mset (queued p v)
        = mset (acked p (calls w)) + mset (in_flight p (taken w)) + mset (queued p w)
            + mset (enqueued K p ops w)
    \<and> BUG \<notin> set (calls v)
    \<and> queues_ok K v
    \<and> (\<forall>i rest c. aen_work_list (sessions v p) = i # rest \<longrightarrow>
         step K (Aen_take p c) v =
           v\<lparr>sessions := (sessions v)(p := (sessions v p)\<lparr>aen_work_list := rest\<rparr>),
             taken := taken v @
               [\<lparr>fr_sess = p, fr_cleanup_only = c, fr_work_item = i,
                 fr_shost = (case shost (sessions v p) of
                               None \<Rightarrow> None
                             | Some h \<Rightarrow> if shost_del h then None else Some h)\<rparr>]\<rparr>)
    \<and> (\<forall>n < length (taken v).
         step K (Aen_deliver n) v =
           v\<lparr>taken := take n (taken v) @ drop (Suc n) (taken v),
             calls := calls v @
               deliver_calls (fr_cleanup_only (taken v ! n)) (fr_shost (taken v ! n))
                 (fr_work_item (taken v ! n))\<rparr>)
    \<and> (\<forall>h. shost (sessions v p) = Some h \<and> \<not> shost_del h \<longrightarrow>
         calls (scst_process_aens K p False v) =
           calls v @ concat (map (\<lambda>i. [Scsi_scan_target (host_no h), Scst_aen_done (aen i)])
                               (aen_work_list (sessions v p))))
    \<and> calls (scst_process_aens K p True v) =
         calls v @ map (\<lambda>i. Scst_aen_done (aen i)) (aen_work_list (sessions v p))
    \<and> queued p (scst_process_aens K p False v) = []
    \<and> queued p (scst_process_aens K p True v) = []
    \<and> calls (scst_local_release_adapter K p v) =
         calls v @ [Cancel_work_sync p]
           @ map (\<lambda>i. Scst_aen_done (aen i)) (aen_work_list (sessions v p))
           @ [Scst_unregister_session p]
    \<and> queued p (scst_local_release_adapter K p v) = []
    \<and> mset (acked p (calls (scst_local_release_adapter K p v))) + mset (in_flight p (taken v))
        = mset (acked p (calls w)) + mset (in_flight p (taken w)) + mset (queued p w)
            + mset (enqueued K p ops w)
    \<and> (unregistering (sessions w p) \<longrightarrow>
         unregistering (sessions v p) \<and> enqueued K p ops w = [])
    \<and> (unregistering (sessions v p) \<longrightarrow>
         (\<forall>ok a. aen_sess a = p \<longrightarrow>
            report_aen_locked K ok a v =
              (Some (if event_fn a = SCST_AEN_SCSI K \<and> \<not> ok then - ENOMEM K
                     else SCST_AEN_RES_NOT_SUPPORTED K), v)
            \<and> step K (Report_locked ok a) v = v)))"
proof -
  define v where "v = run K ops w"
  note inv = run_inv [OF assms(1), of ops p, folded v_def]
  have ok: "queues_ok K v" using inv by blast
  have m: "mset (acked p (calls v)) + mset (in_flight p (taken v)) + mset (queued p v)
        = mset (acked p (calls w)) + mset (in_flight p (taken w)) + mset (queued p w)
            + mset (enqueued K p ops w)"
    using inv by blast
  have nobug: "BUG \<notin> set (calls v)" using inv assms(2) by blast
  have latch: "unregistering (sessions w p) \<longrightarrow>
         unregistering (sessions v p) \<and> enqueued K p ops w = []"
    using inv enqueued_latched [OF assms(1), of p ops] by blast
  have tk: "step K (Aen_take p c) v =
           v\<lparr>sessions := (sessions v)(p := (sessions v p)\<lparr>aen_work_list := rest\<rparr>),
             taken := taken v @
               [\<lparr>fr_sess = p, fr_cleanup_only = c, fr_work_item = i,
                 fr_shost = (case shost (sessions v p) of
                               None \<Rightarrow> None
                             | Some h \<Rightarrow> if shost_del h then None else Some h)\<rparr>]\<rparr>"
    if "aen_work_list (sessions v p) = i # rest" for i rest c
    using that by (simp add: aen_take_def Let_def upd_sess_def)
  have dl: "step K (Aen_deliver n) v =
           v\<lparr>taken := take n (taken v) @ drop (Suc n) (taken v),
             calls := calls v @
               deliver_calls (fr_cleanup_only (taken v ! n)) (fr_shost (taken v ! n))
                 (fr_work_item (taken v ! n))\<rparr>"
    if "n < length (taken v)" for n
    using that frame_ok [OF ok that] by (simp add: Let_def deliver_closed emit_def)
  have l: "aen_work_list (sessions v p) = aen_work_list (sessions v p)" by simp
  have sc: "False \<or> (\<forall>i \<in> set (aen_work_list (sessions v p)). event_fn (aen i) = SCST_AEN_SCSI K)"
    using queue_scsi [OF ok] by simp
  have cl: "True \<or> (\<forall>i \<in> set (aen_work_list (sessions v p)). event_fn (aen i) = SCST_AEN_SCSI K)"
    by simp
  have p1: "calls (scst_process_aens K p False v) =
           calls v @ concat (map (\<lambda>i. [Scsi_scan_target (host_no h), Scst_aen_done (aen i)])
                               (aen_work_list (sessions v p)))"
    if "shost (sessions v p) = Some h \<and> \<not> shost_del h" for h
    using that by (simp add: process_aens_closed [OF l sc] items_live_host)
  have p2: "calls (scst_process_aens K p True v) =
         calls v @ map (\<lambda>i. Scst_aen_done (aen i)) (aen_work_list (sessions v p))"
    by (simp add: process_aens_closed [OF l cl] items_cleanup)
  have p3: "queued p (scst_process_aens K p False v) = []"
    by (simp add: process_aens_closed [OF l sc] queued_def)
  have p4: "queued p (scst_process_aens K p True v) = []"
    by (simp add: process_aens_closed [OF l cl] queued_def)
  have r0: "calls (scst_local_release_adapter K p v) =
         calls v @ [Cancel_work_sync p]
           @ map (\<lambda>i. Scst_aen_done (aen i)) (aen_work_list (sessions v p))
           @ [Scst_unregister_session p]"
    by (simp add: release_closed items_cleanup)
  have r1: "queued p (scst_local_release_adapter K p v) = []"
    by (simp add: release_closed queued_def)
  have r2: "acked p (calls (scst_local_release_adapter K p v)) = acked p (calls v) @ queued p v"
    using acked_items [OF queue_owner [OF ok, of p], of p True "shost (sessions v p)"]
    by (simp add: release_closed acked_append queued_def)
  have r3: "mset (acked p (calls (scst_local_release_adapter K p v))) + mset (in_flight p (taken v))
        = mset (acked p (calls w)) + mset (in_flight p (taken w)) + mset (queued p w)
            + mset (enqueued K p ops w)"
    using m by (simp add: r2 ac_simps)
  have rep: "report_aen_locked K ok a v =
              (Some (if event_fn a = SCST_AEN_SCSI K \<and> \<not> ok then - ENOMEM K
                     else SCST_AEN_RES_NOT_SUPPORTED K), v)
            \<and> step K (Report_locked ok a) v = v"
    if "unregistering (sessions v p)" and "aen_sess a = p" for ok a
    using that by (simp add: report_aen_locked_def)
  show ?thesis
    unfolding Let_def v_def [symmetric]
    using m nobug ok tk dl p1 p2 p3 p4 r0 r1 r3 latch rep by blast
qed

theorem C1_aen_acknowledged_once_witness:
  "queues_ok linux_hdr world0 \<and> BUG \<notin> set (calls world0)
   \<and> enqueued linux_hdr 0 [Report_aen True aen_A, Report_aen True aen_B, Aen_take 0 False] world0
       = [aen_A, aen_B]
   \<and> aen_work_list (sessions (run linux_hdr [Report_aen True aen_A, Report_aen True aen_B,
        Aen_take 0 False] world0) 0) = [\<lparr>aen = aen_B\<rparr>]
   \<and> 0 < length (taken (run linux_hdr [Report_aen True aen_A, Report_aen True aen_B,
        Aen_take 0 False] world0))
   \<and> calls (step linux_hdr (Aen_deliver 0) (run linux_hdr [Report_aen True aen_A,
        Report_aen True aen_B, Aen_take 0 False] world0))
       = [Queue_work 0, Queue_work 0, Scsi_scan_target 7, Scst_aen_done aen_A]
   \<and> shost (sessions (run linux_hdr [Report_aen True aen_A, Report_aen True aen_B,
        Aen_take 0 False] world0) 0) = Some host7
   \<and> \<not> shost_del host7
   \<and> calls (scst_process_aens linux_hdr 0 False (run linux_hdr [Report_aen True aen_A,
        Report_aen True aen_B, Aen_take 0 False] world0))
       = [Queue_work 0, Queue_work 0, Scsi_scan_target 7, Scst_aen_done aen_B]
   \<and> queues_ok linux_hdr world_closing \<and> BUG \<notin> set (calls world_closing)
   \<and> unregistering (sessions world_closing 0)
   \<and> unregistering (sessions (run linux_hdr [Report_locked True aen_B, Run_aen_work 0]
        world_closing) 0)
   \<and> enqueued linux_hdr 0 [Report_locked True aen_B, Run_aen_work 0] world_closing = []
   \<and> aen_sess aen_B = 0
   \<and> step linux_hdr (Report_locked True aen_B) world_closing = world_closing"
proof -
  have b: "BUG \<notin> set (calls world0)" by (simp add: ex_defs)
  have c: "queues_ok linux_hdr world_closing" by (simp add: queues_ok_def upd_sess_def ex_defs)
  have d: "BUG \<notin> set (calls world_closing)" by (simp add: upd_sess_def ex_defs)
  define v where "v = world0\<lparr>sessions := (sessions world0)(0 := sess_H\<lparr>aen_work := True,
                   aen_work_list := [\<lparr>aen = aen_B\<rparr>]\<rparr>),
               calls := [Queue_work 0, Queue_work 0],
               taken := [\<lparr>fr_sess = 0, fr_cleanup_only = False, fr_work_item = \<lparr>aen = aen_A\<rparr>,
                          fr_shost = Some host7\<rparr>]\<rparr>"
  have e: "run linux_hdr [Report_aen True aen_A, Report_aen True aen_B, Aen_take 0 False] world0
      = v"
    by (simp add: v_def scst_local_report_aen_def report_aen_locked_def
        report_aen_queue_work_def aen_take_def Let_def upd_sess_def emit_def ex_defs)
  have f: "run linux_hdr [Report_locked True aen_B, Run_aen_work 0] world_closing = world_closing"
    by (simp add: report_aen_locked_def upd_sess_def ex_defs)
  note g = C1_aen_acknowledged_once [where K = linux_hdr and w = world0 and p = 0 and ops =
        "[Report_aen True aen_A, Report_aen True aen_B, Aen_take 0 False]",
        OF world0_queues_ok b, unfolded Let_def e]
  note h = C1_aen_acknowledged_once [where K = linux_hdr and w = world_closing and p = 0
        and ops = "[Report_locked True aen_B, Run_aen_work 0]", OF c d, unfolded Let_def f]
  have q: "aen_work_list (sessions v 0) = [\<lparr>aen = aen_B\<rparr>]"
    and t: "0 < length (taken v)"
    and s: "shost (sessions v 0) = Some host7 \<and> \<not> shost_del host7"
    by (simp_all add: v_def ex_defs)
  have l: "unregistering (sessions world_closing 0)" and a: "aen_sess aen_B = 0"
    by (simp_all add: upd_sess_def ex_defs)
  have 1: "enqueued linux_hdr 0 [Report_aen True aen_A, Report_aen True aen_B, Aen_take 0 False]
      world0 = [aen_A, aen_B]"
    by (simp add: scst_local_report_aen_def report_aen_locked_def report_aen_queue_work_def
        queued_def Let_def upd_sess_def emit_def ex_defs)
  from g t have "step linux_hdr (Aen_deliver 0) v =
           v\<lparr>taken := take 0 (taken v) @ drop (Suc 0) (taken v),
             calls := calls v @
               deliver_calls (fr_cleanup_only (taken v ! 0)) (fr_shost (taken v ! 0))
                 (fr_work_item (taken v ! 0))\<rparr>"
    by blast
  then have 2: "calls (step linux_hdr (Aen_deliver 0) v)
       = [Queue_work 0, Queue_work 0, Scsi_scan_target 7, Scst_aen_done aen_A]"
    by (simp add: v_def deliver_calls_def host7_def)
  from g s have "calls (scst_process_aens linux_hdr 0 False v) =
           calls v @ concat (map (\<lambda>i. [Scsi_scan_target (host_no host7), Scst_aen_done (aen i)])
                               (aen_work_list (sessions v 0)))"
    by blast
  then have 3: "calls (scst_process_aens linux_hdr 0 False v)
       = [Queue_work 0, Queue_work 0, Scsi_scan_target 7, Scst_aen_done aen_B]"
    by (simp add: v_def host7_def)
  have 4: "unregistering (sessions world_closing 0)
      \<and> enqueued linux_hdr 0 [Report_locked True aen_B, Run_aen_work 0] world_closing = []"
    using h l by blast
  have 5: "step linux_hdr (Report_locked True aen_B) world_closing = world_closing"
    using h l a by blast
  show ?thesis
    unfolding e f
    using world0_queues_ok [of linux_hdr] b c d q t s l a 1 2 3 4 5 by simp
qed

text \<open>C1 as stated fails: AEN A is reported on session ``H'', then the engine closes the
  session, which sets the latch and schedules the removal; the AEN work that was queued
  before then runs, rescans host 7 for A and acknowledges A, with the latch set.\<close>

theorem C1_rescan_after_latch_counterexample:
  "unregistering (sessions (run linux_hdr [Report_aen True aen_A, Close_session 0] world0) 0)
   \<and> calls (run linux_hdr [Report_aen True aen_A, Close_session 0] world0)
       = [Queue_work 0, Schedule_work 0]
   \<and> calls (run linux_hdr [Report_aen True aen_A, Close_session 0, Run_aen_work 0] world0)
       = [Queue_work 0, Schedule_work 0, Scsi_scan_target 7, Scst_aen_done aen_A]"
  by (simp add: scst_local_report_aen_def report_aen_locked_def report_aen_queue_work_def
      scst_aen_work_fn_def scst_process_aens.simps aen_iteration_def aen_take_def
      aen_deliver_def scst_local_close_session_def close_closed Let_def upd_sess_def
      emit_def ex_defs)

text \<open>C6 fails in the code. In the run \<open>close_report_race\<close> from the state with session ``H'',
  AEN A is put on the queue before AEN B, and B is acknowledged before A. After the first
  seven steps A is in the hands of the cleanup-only drain of \<open>scst_local_release_adapter\<close>
  and B is on the queue; the \<open>queue_work\<close> of the report of B then comes after the
  \<open>cancel_work_sync\<close> that was to keep the worker out, and the worker's pass acknowledges B
  while the drain has not yet acknowledged A.\<close>

theorem C6_close_report_race:
  "enqueued linux_hdr 0 close_report_race world0 = [aen_A, aen_B]
   \<and> queued 0 (run linux_hdr (take 7 close_report_race) world0) = [aen_B]
   \<and> in_flight 0 (taken (run linux_hdr (take 7 close_report_race) world0)) = [aen_A]
   \<and> calls (run linux_hdr (take 7 close_report_race) world0)
       = [Queue_work 0, Schedule_work 0, Device_unregister 0, Scsi_remove_host (Some host7),
          Cancel_work_sync 0]
   \<and> calls (run linux_hdr close_report_race world0)
       = [Queue_work 0, Schedule_work 0, Device_unregister 0, Scsi_remove_host (Some host7),
          Cancel_work_sync 0, Queue_work 0, Scst_aen_done aen_B, Scst_aen_done aen_A,
          Scst_unregister_session 0]
   \<and> acked 0 (calls (run linux_hdr close_report_race world0)) = [aen_B, aen_A]"
  by (simp add: scst_local_report_aen_def report_aen_locked_def report_aen_queue_work_def
      scst_aen_work_fn_def scst_process_aens.simps aen_iteration_def aen_take_def
      aen_deliver_def scst_local_close_session_def close_closed scst_remove_work_fn_def
      scst_local_remove_adapter_def scst_local_driver_remove_def release_adapter_cancel_def
      release_adapter_unregister_def queued_def in_flight_def Let_def upd_sess_def upd_tgt_def
      emit_def ex_defs)

text \<open>C7 (as amended). The report returns NotSupported and leaves the state as it is (nothing
  enqueued, nothing scheduled) when the event kind is not the SCSI kind, and when the kind
  is SCSI, the work item was allocated and the latch is set. When the kind is SCSI and the
  allocation of the work item fails it returns -ENOMEM and leaves the state as it is,
  whatever the latch. In the remaining case (SCSI kind, work item allocated, latch not set)
  it appends the item at the tail of the queue, queues the AEN work and returns 0.\<close>

theorem C7_report_aen_results:
  "(event_fn a \<noteq> SCST_AEN_SCSI K \<longrightarrow>
      scst_local_report_aen K ok a w = (SCST_AEN_RES_NOT_SUPPORTED K, w))
   \<and> (event_fn a = SCST_AEN_SCSI K \<and> \<not> ok \<longrightarrow>
      scst_local_report_aen K ok a w = (- ENOMEM K, w))
   \<and> (event_fn a = SCST_AEN_SCSI K \<and> ok \<and> unregistering (sessions w (aen_sess a)) \<longrightarrow>
      scst_local_report_aen K ok a w = (SCST_AEN_RES_NOT_SUPPORTED K, w))
   \<and> (event_fn a = SCST_AEN_SCSI K \<and> ok \<and> \<not> unregistering (sessions w (aen_sess a)) \<longrightarrow>
      scst_local_report_aen K ok a w =
        (0, w\<lparr>sessions := (sessions w)(aen_sess a := (sessions w (aen_sess a))
                  \<lparr>aen_work_list := aen_work_list (sessions w (aen_sess a)) @ [\<lparr>aen = a\<rparr>],
                   aen_work := True\<rparr>),
              calls := calls w @ [Queue_work (aen_sess a)]\<rparr>))"
  by (simp add: scst_local_report_aen_def report_aen_locked_def report_aen_queue_work_def
      Let_def upd_sess_def emit_def)

theorem C7_report_aen_results_witness:
  "event_fn aen_other \<noteq> SCST_AEN_SCSI linux_hdr
   \<and> scst_local_report_aen linux_hdr True aen_other world0 = (- 1, world0)
   \<and> event_fn aen_A = SCST_AEN_SCSI linux_hdr
   \<and> scst_local_report_aen linux_hdr False aen_A world0 = (- 12, world0)
   \<and> unregistering (sessions world_closing (aen_sess aen_A))
   \<and> scst_local_report_aen linux_hdr True aen_A world_closing = (- 1, world_closing)
   \<and> \<not> unregistering (sessions world0 (aen_sess aen_A))
   \<and> fst (scst_local_report_aen linux_hdr True aen_A world0) = 0
   \<and> aen_work_list (sessions (snd (scst_local_report_aen linux_hdr True aen_A world0)) 0)
       = [\<lparr>aen = aen_A\<rparr>]"
  using C7_report_aen_results [of aen_other linux_hdr True world0]
    C7_report_aen_results [of aen_A linux_hdr False world0]
    C7_report_aen_results [of aen_A linux_hdr True world_closing]
    C7_report_aen_results [of aen_A linux_hdr True world0]
  by (simp add: ex_defs upd_sess_def)

text \<open>C7 as stated fails: AEN A is of the SCSI kind and session ``H'' is not unregistering,
  but the allocation of the work item fails; the report returns -ENOMEM (-12), which is
  neither NotSupported nor success, and enqueues nothing.\<close>

theorem C7_allocation_failure_counterexample:
  "event_fn aen_A = SCST_AEN_SCSI linux_hdr
   \<and> \<not> unregistering (sessions world0 (aen_sess aen_A))
   \<and> scst_local_report_aen linux_hdr False aen_A world0 = (- 12, world0)"
  by (simp add: scst_local_report_aen_def report_aen_locked_def Let_def ex_defs)

subsection \<open>Closing a session\<close>

text \<open>C2. The first close of a session whose latch is not set sets the latch and starts the
  removal once: asynchronously it marks \<open>remove_work\<close> pending by one \<open>schedule_work\<close> call,
  synchronously it unlinks the session and calls \<open>device_unregister\<close>. Every later close
  of the session, in either mode, leaves the whole state as it is. And in every run of the
  session callbacks from a state in which the session is neither closed nor has its removal
  pending, the removal has run exactly once as soon as the session is closed and the
  scheduled removal is no longer pending, and not at all before.\<close>

theorem C2_close_session_once:
  assumes "\<not> unregistering (sessions w sess)"
  shows "unregistering (sessions (scst_local_close_session_impl sess async w) sess)
   \<and> calls (scst_local_close_session_impl sess async w) =
       calls w @ [if async then Schedule_work sess else Device_unregister sess]
   \<and> remove_work (sessions (scst_local_close_session_impl sess True w) sess)
   \<and> sessions_list (tgts (scst_local_close_session_impl sess False w) (tgt (sessions w sess))) =
       remove1 sess (sessions_list (tgts w (tgt (sessions w sess))))
   \<and> (\<forall>flags. foldl (\<lambda>v a. scst_local_close_session_impl sess a v)
                 (scst_local_close_session_impl sess async w) flags =
               scst_local_close_session_impl sess async w)
   \<and> (\<not> remove_work (sessions w sess) \<longrightarrow>
        (\<forall>K ops. removal_runs sess (calls (run K ops w)) =
           removal_runs sess (calls w) +
             (if unregistering (sessions (run K ops w) sess)
                 \<and> \<not> remove_work (sessions (run K ops w) sess) then 1 else 0)))"
proof -
  have rest: "\<forall>flags. foldl (\<lambda>v a. scst_local_close_session_impl sess a v)
                 (scst_local_close_session_impl sess async w) flags =
               scst_local_close_session_impl sess async w"
    using close_repeat [OF close_sets_latch] by blast
  have runs: "removal_runs sess (calls (run K ops w)) =
           removal_runs sess (calls w) +
             (if unregistering (sessions (run K ops w) sess)
                 \<and> \<not> remove_work (sessions (run K ops w) sess) then 1 else 0)"
    if "\<not> remove_work (sessions w sess)" for K ops
  proof -
    have "removal_inv sess (removal_runs sess (calls w)) w"
      using assms that by (simp add: removal_inv_def)
    from removal_inv_run [OF this, of K ops] show ?thesis
      by (auto simp: removal_inv_def split: if_splits)
  qed
  show ?thesis
    using assms rest runs
    by (simp add: close_closed)
qed

theorem C2_close_session_once_witness:
  "\<not> unregistering (sessions world0 0)
   \<and> unregistering (sessions (scst_local_close_session_impl 0 True world0) 0)
   \<and> calls (scst_local_close_session_impl 0 True world0) = [Schedule_work 0]
   \<and> calls (scst_local_close_session_impl 0 False (scst_local_close_session_impl 0 True world0))
       = [Schedule_work 0]
   \<and> calls (run linux_hdr [Close_session 0, Close_session_sync 0, Run_remove_work 0,
                            Close_session 0, Run_remove_work 0] world0)
       = [Schedule_work 0, Device_unregister 0]"
proof -
  have a: "\<not> unregistering (sessions world0 0)" by (simp add: ex_defs)
  show ?thesis
    using C2_close_session_once [where w = world0 and sess = 0 and async = True, OF a] a
    by (simp add: close_closed scst_local_close_session_def scst_remove_work_fn_def
        scst_local_remove_adapter_def upd_sess_def upd_tgt_def emit_def ex_defs)
qed

subsection \<open>The exit barrier and the administrative operations\<close>

lemma read_lock_unlock:
  "\<not> writer (scst_local_exit_rwsem w) \<Longrightarrow>
   exit_rwsem_up_read
     (w\<lparr>scst_local_exit_rwsem := snd (down_read_trylock (scst_local_exit_rwsem w))\<rparr>) = w"
  by (simp add: exit_rwsem_up_read_def down_read_trylock_def up_read_def)

lemma find_first_Some:
  "\<exists>x \<in> set xs. P x \<Longrightarrow> \<exists>y. find P xs = Some y"
  by (cases "find P xs") (auto simp: find_None_iff)

lemma close_tgts_list [simp]:
  "scst_local_tgts_list (scst_local_close_session_impl sess async w) = scst_local_tgts_list w"
  by (simp add: close_closed)

lemma close_rwsem [simp]:
  "scst_local_exit_rwsem (scst_local_close_session_impl sess async w) = scst_local_exit_rwsem w"
  by (simp add: close_closed)

lemma close_all_tgts_list [simp]:
  "scst_local_tgts_list (foldl (\<lambda>v sess. scst_local_close_session_impl sess async v) w ss)
     = scst_local_tgts_list w"
  by (induction ss arbitrary: w) simp_all

lemma close_all_rwsem [simp]:
  "scst_local_exit_rwsem (foldl (\<lambda>v sess. scst_local_close_session_impl sess async v) w ss)
     = scst_local_exit_rwsem w"
  by (induction ss arbitrary: w) simp_all

lemma remove_target_tgts_list [simp]:
  "scst_local_tgts_list (uu_scst_local_remove_target t w) = remove1 t (scst_local_tgts_list w)"
  by (simp add: uu_scst_local_remove_target_def Let_def emit_def)

lemma remove_target_rwsem [simp]:
  "scst_local_exit_rwsem (uu_scst_local_remove_target t w) = scst_local_exit_rwsem w"
  by (simp add: uu_scst_local_remove_target_def Let_def emit_def)


lemma remove_all_rwsem [simp]:
  "scst_local_exit_rwsem (foldl (\<lambda>v t. uu_scst_local_remove_target t v) w ts)
     = scst_local_exit_rwsem w"
  by (induction ts arbitrary: w) simp_all




lemma unknown_command:
  "strcasecmp ''add_session'' ''frobnicate'' \<noteq> 0"
  "strcasecmp ''del_session'' ''frobnicate'' \<noteq> 0"
  by code_simp+




text \<open>C10 (as amended). When the exit semaphore is not held for writing, the mgmt command
  with a command word that is neither add_session nor del_session (compared without regard
  to case), the name of a target on the list and a non-empty session name returns 0 and
  leaves the state as it is.\<close>

theorem C10_unknown_mgmt_cmd:
  assumes "\<not> writer (scst_local_exit_rwsem w)"
    and "target_name \<noteq> []"
    and "\<exists>t \<in> set (scst_local_tgts_list w). tgt_name (tgts w t) = target_name"
    and "session_name \<noteq> []"
    and "strcasecmp ''add_session'' command \<noteq> 0"
    and "strcasecmp ''del_session'' command \<noteq> 0"
  shows "scst_local_sysfs_mgmt_cmd K env command target_name session_name w = (0, w)"
proof -
  let ?w0 = "w\<lparr>scst_local_exit_rwsem := snd (down_read_trylock (scst_local_exit_rwsem w))\<rparr>"
  have "\<exists>t \<in> set (scst_local_tgts_list ?w0). strcmp (tgt_name (tgts ?w0 t)) target_name = 0"
    using assms(3) by (simp add: strcmp_def)
  then obtain tgtp where
    f: "find (\<lambda>t. strcmp (tgt_name (tgts ?w0 t)) target_name = 0) (scst_local_tgts_list ?w0)
          = Some tgtp"
    using find_first_Some by fastforce
  have got: "down_read_trylock (scst_local_exit_rwsem w)
               = (1, snd (down_read_trylock (scst_local_exit_rwsem w)))"
    using assms(1) by (simp add: down_read_trylock_def)
  show ?thesis
    unfolding scst_local_sysfs_mgmt_cmd_def
    apply (subst got)
    using assms(2,4,5,6) f read_lock_unlock [OF assms(1)]
    by (simp add: Let_def)
qed

theorem C10_unknown_mgmt_cmd_witness:
  "\<not> writer (scst_local_exit_rwsem world0) \<and> ''T'' \<noteq> []
   \<and> 0 \<in> set (scst_local_tgts_list world0) \<and> tgt_name (tgts world0 0) = ''T'' \<and> ''H'' \<noteq> []
   \<and> strcasecmp ''add_session'' ''frobnicate'' \<noteq> 0
   \<and> strcasecmp ''del_session'' ''frobnicate'' \<noteq> 0
   \<and> scst_local_sysfs_mgmt_cmd linux_hdr env0 ''frobnicate'' ''T'' ''H'' world0 = (0, world0)"
proof -
  have a: "\<not> writer (scst_local_exit_rwsem world0)" by (simp add: ex_defs)
  have b: "\<exists>t \<in> set (scst_local_tgts_list world0). tgt_name (tgts world0 t) = ''T''"
    by (simp add: ex_defs)
  have c: "0 \<in> set (scst_local_tgts_list world0) \<and> tgt_name (tgts world0 0) = ''T''"
    by (simp add: ex_defs)
  show ?thesis
    using C10_unknown_mgmt_cmd [where w = world0 and target_name = "''T''"
        and session_name = "''H''" and command = "''frobnicate''" and K = linux_hdr
        and env = env0, OF a _ b _ unknown_command(1) unknown_command(2)]
      a c unknown_command
    by simp
qed

text \<open>C10 as stated fails: with target ``T'' on the list, the session name ``H'' and the
  unknown command word ``frobnicate'', the mgmt command returns -ENOENT (-2), not 0, when
  \<open>scst_local_exit\<close> holds the exit semaphore.\<close>

theorem C10_exit_in_progress_counterexample:
  "0 \<in> set (scst_local_tgts_list world_exiting) \<and> tgt_name (tgts world_exiting 0) = ''T''
   \<and> strcasecmp ''add_session'' ''frobnicate'' \<noteq> 0
   \<and> strcasecmp ''del_session'' ''frobnicate'' \<noteq> 0
   \<and> scst_local_sysfs_mgmt_cmd linux_hdr env0 ''frobnicate'' ''T'' ''H'' world_exiting
       = (- 2, world_exiting)"
  using unknown_command
  by (simp add: scst_local_sysfs_mgmt_cmd_def down_read_trylock_def ex_defs)

end
